theory Spec2Isabelle
  imports Complex_Main "HOL-Library.Word"
begin

section \<open>JavaScript values, strings and numbers\<close>

text \<open>
  The fields \<open>code\<close> and \<open>status\<close> of an error are declared \<open>string\<close> and \<open>number\<close> in
  \<open>types.ts\<close>, but \<open>handleApiError\<close> copies whatever the caught exception carries, so at
  run time they hold an arbitrary primitive. Three shapes are enough for the code paths of
  the client: absent, a number, a string.
\<close>

datatype jsval = Undefined | Num int | Str string

text \<open>JavaScript truthiness: \<open>undefined\<close>, \<open>0\<close> and \<open>''\<close> are falsy.\<close>

fun truthy :: "jsval \<Rightarrow> bool" where
  "truthy Undefined = False"
| "truthy (Num n) = (n \<noteq> 0)"
| "truthy (Str s) = (s \<noteq> [])"

text \<open>\<open>a || b\<close> on values.\<close>

definition js_or :: "jsval \<Rightarrow> jsval \<Rightarrow> jsval" where
  "js_or a b = (if truthy a then a else b)"

text \<open>An optional string property (\<open>z.string().optional()\<close>) is truthy when present and non-empty.\<close>

fun truthy_str :: "string option \<Rightarrow> bool" where
  "truthy_str None = False"
| "truthy_str (Some s) = (s \<noteq> [])"

text \<open>\<open>String.prototype.startsWith\<close> and \<open>String.prototype.includes\<close> (named \<open>str_includes\<close>: the bare name is reserved).\<close>

fun startsWith :: "string \<Rightarrow> string \<Rightarrow> bool" where
  "startsWith s [] = True"
| "startsWith [] (p # ps) = False"
| "startsWith (c # cs) (p # ps) = (c = p \<and> startsWith cs ps)"

fun str_includes :: "string \<Rightarrow> string \<Rightarrow> bool" where
  "str_includes [] sub = (sub = [])"
| "str_includes (c # cs) sub = (startsWith (c # cs) sub \<or> str_includes cs sub)"

text \<open>
  Template literals print an integer in decimal. \<open>show_nat\<close> recurses on the number of
  digits left, which is bounded by the number itself.
\<close>

definition digit :: "nat \<Rightarrow> char" where
  "digit d = ''0123456789'' ! d"

fun show_digits :: "nat \<Rightarrow> nat \<Rightarrow> string" where
  "show_digits 0 n = [digit (n mod 10)]"
| "show_digits (Suc fuel) n =
     (if n < 10 then [digit n] else show_digits fuel (n div 10) @ [digit (n mod 10)])"

definition show_nat :: "nat \<Rightarrow> string" where
  "show_nat n = show_digits n n"

definition show_int :: "int \<Rightarrow> string" where
  "show_int i = (if i < 0 then CHR ''-'' # show_nat (nat (- i)) else show_nat (nat i))"

text \<open>
  \<open>Math.ceil(a / b)\<close> for integers \<open>a\<close> and a positive integer \<open>b\<close>, and
  \<open>Math.round(a / b)\<close> (nearest integer, a tie going up).
\<close>

definition ceil_div :: "int \<Rightarrow> int \<Rightarrow> int" where
  "ceil_div a b = - ((- a) div b)"

definition round_div :: "int \<Rightarrow> int \<Rightarrow> int" where
  "round_div a b = (2 * a + b) div (2 * b)"

section \<open>Errors (\<open>types.ts\<close>)\<close>

text \<open>\<open>class TwitterError extends Error\<close> with its \<open>message\<close>, \<open>code\<close> and \<open>status\<close>.\<close>

record TwitterError =
  message :: string
  code :: jsval
  status :: jsval

text \<open>
  What a \<open>catch\<close> clause can receive: a \<open>TwitterError\<close>, or some other \<open>Error\<close> object
  (thrown by the platform library, by \<open>fetch\<close> or by the runtime) of which the client reads
  the properties \<open>message\<close>, \<open>code\<close> and \<open>status\<close>.
\<close>

datatype thrown =
    Tagged TwitterError
  | JsError string jsval jsval

fun thrown_message :: "thrown \<Rightarrow> string" where
  "thrown_message (Tagged e) = message e"
| "thrown_message (JsError m c s) = m"

fun thrown_code :: "thrown \<Rightarrow> jsval" where
  "thrown_code (Tagged e) = code e"
| "thrown_code (JsError m c s) = c"

definition isRateLimit :: "thrown \<Rightarrow> bool" where
  "isRateLimit e = (case e of Tagged t \<Rightarrow> code t = Str ''rate_limit_exceeded'' | _ \<Rightarrow> False)"

section \<open>Configuration and the credential provider (\<open>auth/factory.ts\<close>)\<close>

datatype AuthType = oauth1 | oauth2

text \<open>
  \<open>Config\<close> of \<open>types.ts\<close>. Every credential is an optional string; \<open>authType\<close> is optional
  on the way in (the factory treats anything but \<open>'oauth2'\<close> as the default scheme).
\<close>

record Config =
  apiKey :: "string option"
  apiSecretKey :: "string option"
  accessToken :: "string option"
  accessTokenSecret :: "string option"
  authType :: "AuthType option"
  oauth2ClientId :: "string option"
  oauth2ClientSecret :: "string option"
  oauth2AccessToken :: "string option"
  oauth2RefreshToken :: "string option"
  oauth2TokenExpiresAt :: "string option"

text \<open>
  The session handle: \<open>new TwitterApi(token)\<close> or \<open>new TwitterApi({appKey, appSecret,
  accessToken, accessSecret})\<close>. Constructing it only stores the credentials.
\<close>

datatype TwitterApi =
    BearerClient string
  | OAuth1Client string string string string

definition OAUTH2_REQUIRED :: string where
  "OAUTH2_REQUIRED = ''OAuth 2.0 access token is required when using OAuth 2.0 authentication. Please check your OAUTH2_ACCESS_TOKEN environment variable.''"

definition OAUTH1_REQUIRED :: string where
  "OAUTH1_REQUIRED = ''OAuth 1.0a requires all four credentials: API_KEY, API_SECRET_KEY, ACCESS_TOKEN, and ACCESS_TOKEN_SECRET. Please check your environment variables.''"

text \<open>
  \<open>createTwitterClient\<close>: the result is the handle, or the message of the plain \<open>Error\<close> it
  throws. The function takes the configuration only and returns no trace: it has no access
  to the network.
\<close>

definition createTwitterClient :: "Config \<Rightarrow> string + TwitterApi" where
  "createTwitterClient cfg =
     (if authType cfg = Some oauth2 then
        (case oauth2AccessToken cfg of
           None \<Rightarrow> Inl OAUTH2_REQUIRED
         | Some bearer \<Rightarrow> if bearer = [] then Inl OAUTH2_REQUIRED else Inr (BearerClient bearer))
      else
        (case (apiKey cfg, apiSecretKey cfg, accessToken cfg, accessTokenSecret cfg) of
           (Some appKey, Some appSecret, Some token, Some secret) \<Rightarrow>
             if appKey = [] \<or> appSecret = [] \<or> token = [] \<or> secret = []
             then Inl OAUTH1_REQUIRED
             else Inr (OAuth1Client appKey appSecret token secret)
         | _ \<Rightarrow> Inl OAUTH1_REQUIRED))"

section \<open>The client and its rate and quota governor (\<open>twitter-api.ts\<close>)\<close>

text \<open>
  The state of a \<open>TwitterClient\<close>: its configuration, the session handle, the access token
  held by the \<open>V2MediaUploader\<close> (\<open>None\<close> for \<open>null\<close>), and the two maps of the governor.
  A \<open>Date\<close> is its time value, in milliseconds since the epoch.
\<close>

record DailyTracker =
  count :: int
  resetAt :: int

record TwitterClient =
  config :: Config
  client :: TwitterApi
  v2MediaUploader :: "string option"
  rateLimitMap :: "string \<rightharpoonup> int"
  dailyLimits :: "string \<rightharpoonup> DailyTracker"

text \<open>The tables \<open>DAILY_LIMITS\<close> and \<open>RATE_LIMITS_MS\<close>.\<close>

definition DAILY_LIMITS :: "string \<rightharpoonup> int" where
  "DAILY_LIMITS = map_of
     [(''tweets/create'', 17),
      (''tweets/delete'', 17),
      (''media/upload'', 17)]"

definition RATE_LIMITS_MS :: "string \<rightharpoonup> int" where
  "RATE_LIMITS_MS = map_of
     [(''tweets/lookup'', 15 * 60 * 1000),
      (''tweets/search'', 15 * 60 * 1000),
      (''tweets/create'', 60 * 1000),
      (''tweets/delete'', 60 * 1000),
      (''media/upload'', 60 * 1000)]"

text \<open>
  \<open>this.RATE_LIMITS_MS[endpoint] || 1000\<close>: every entry of the table is non-zero, so the
  default is taken exactly for the keys the table lacks.
\<close>

definition rateLimitOf :: "string \<Rightarrow> int" where
  "rateLimitOf endpoint = (case RATE_LIMITS_MS endpoint of Some ms \<Rightarrow> ms | None \<Rightarrow> 1000)"

text \<open>
  The host's time zone, as ECMAScript sees it: the offset of local time from UTC, in
  milliseconds, at a UTC time value (\<open>LocalTZA(t, true)\<close>) and at a local time value
  (\<open>LocalTZA(t, false)\<close>).
\<close>

record host =
  LocalTZA_utc :: "int \<Rightarrow> int"
  LocalTZA_local :: "int \<Rightarrow> int"

definition msPerDay :: int where
  "msPerDay = 24 * 60 * 60 * 1000"

text \<open>
  \<open>resetAt = new Date(now); resetAt.setDate(resetAt.getDate() + 1)\<close>: the day of the month
  of the local time is advanced by one and the time within the day is kept, so the local
  time value grows by \<open>msPerDay\<close>; the result is converted back to UTC.
\<close>

definition setDate_next :: "host \<Rightarrow> int \<Rightarrow> int" where
  "setDate_next h t =
     (let local = t + LocalTZA_utc h t + msPerDay
      in local - LocalTZA_local h local)"

text \<open>
  One call of \<open>checkRateLimit\<close> reads the clock three times: \<open>new Date()\<close> on entry, \<open>Date.now()\<close>
  in the comparison with the last request, and \<open>Date.now()\<close> when the request is recorded.
\<close>

record clock =
  new_Date :: int
  Date_now_check :: int
  Date_now_record :: int

definition rate_limit_error :: "int \<Rightarrow> string \<Rightarrow> TwitterError" where
  "rate_limit_error waitTime endpoint =
     \<lparr>message = ''Rate limit: Please wait '' @ show_int waitTime @ '' seconds before next ''
                  @ endpoint @ '' request'',
      code = Str ''rate_limit_exceeded'',
      status = Num 429\<rparr>"

definition daily_limit_error :: "int \<Rightarrow> int \<Rightarrow> TwitterError" where
  "daily_limit_error dailyLimit hoursUntilReset =
     \<lparr>message = ''Daily limit exceeded ('' @ show_int dailyLimit @ '' per 24h). Resets in ''
                  @ show_int hoursUntilReset @ '' hours.'',
      code = Str ''daily_limit_exceeded'',
      status = Num 429\<rparr>"

text \<open>
  \<open>checkRateLimit\<close>. The result pairs what the call does (\<open>Inl\<close>: the error it throws) with
  the client as the call leaves it, also when it throws. \<open>if (lastRequest)\<close> is a truthiness
  test: an absent entry and a recorded time value of 0 both skip the comparison.
\<close>

definition checkRateLimit ::
  "host \<Rightarrow> clock \<Rightarrow> string \<Rightarrow> TwitterClient \<Rightarrow> (TwitterError + unit) \<times> TwitterClient" where
  "checkRateLimit h clk endpoint this =
     (let now = new_Date clk;
          lastRequest = rateLimitMap this endpoint;
          rateLimit = rateLimitOf endpoint
      in
      case (case lastRequest of
              None \<Rightarrow> None
            | Some prev \<Rightarrow>
                if prev \<noteq> 0 \<and> Date_now_check clk - prev < rateLimit
                then Some (ceil_div (rateLimit - (Date_now_check clk - prev)) 1000)
                else None) of
        Some waitTime \<Rightarrow> (Inl (rate_limit_error waitTime endpoint), this)
      | None \<Rightarrow>
        (case DAILY_LIMITS endpoint of
           None \<Rightarrow>
             (Inr (), this\<lparr>rateLimitMap := (rateLimitMap this)(endpoint \<mapsto> Date_now_record clk)\<rparr>)
         | Some dailyLimit \<Rightarrow>
             (let this1 =
                    (case dailyLimits this endpoint of
                       None \<Rightarrow> this
                     | Some dailyTracker \<Rightarrow>
                         if resetAt dailyTracker < now
                         then this\<lparr>dailyLimits := (dailyLimits this)(endpoint := None)\<rparr>
                         else this)
              in
              (case dailyLimits this1 endpoint of
                 Some current \<Rightarrow>
                   if count current \<ge> dailyLimit
                   then
                     (Inl (daily_limit_error dailyLimit
                             (ceil_div (resetAt current - now) (1000 * 60 * 60))),
                      this1)
                   else
                     (Inr (),
                      this1\<lparr>dailyLimits :=
                               (dailyLimits this1)(endpoint \<mapsto> current\<lparr>count := count current + 1\<rparr>),
                             rateLimitMap :=
                               (rateLimitMap this1)(endpoint \<mapsto> Date_now_record clk)\<rparr>)
               | None \<Rightarrow>
                   (Inr (),
                    this1\<lparr>dailyLimits :=
                             (dailyLimits this1)
                               (endpoint \<mapsto> \<lparr>count = 1, resetAt = setDate_next h now\<rparr>),
                           rateLimitMap :=
                             (rateLimitMap this1)(endpoint \<mapsto> Date_now_record clk)\<rparr>)))))"

text \<open>
  The constructor of \<open>TwitterClient\<close>: it fails with the error of \<open>createTwitterClient\<close>, or
  yields a client with empty maps and, under \<open>oauth2\<close>, a \<open>V2MediaUploader\<close> on the access
  token.
\<close>

definition new_TwitterClient :: "Config \<Rightarrow> string + TwitterClient" where
  "new_TwitterClient cfg =
     (case createTwitterClient cfg of
        Inl e \<Rightarrow> Inl e
      | Inr api \<Rightarrow>
          Inr \<lparr>config = cfg,
               client = api,
               v2MediaUploader =
                 (if authType cfg = Some oauth2 \<and> truthy_str (oauth2AccessToken cfg)
                  then oauth2AccessToken cfg else None),
               rateLimitMap = Map.empty,
               dailyLimits = Map.empty\<rparr>)"

section \<open>Requests, responses and the trace of effects\<close>

type_synonym bytes = "8 word list"

text \<open>\<open>MediaItem\<close>, \<open>TweetOptions\<close> and \<open>PostedTweet\<close> of \<open>types.ts\<close>.\<close>

record MediaItem =
  data :: string
  media_type :: string

record TweetOptions =
  tweet_text :: string
  reply :: "string option"
  media :: "jsval list option"

record PostedTweet =
  posted_id :: string
  posted_text :: string

text \<open>What the platform library returns for a tweet and a user (\<open>TweetV2\<close>, \<open>UserV2\<close>).\<close>

record PublicMetrics =
  like_count :: "int option"
  retweet_count :: "int option"
  reply_count :: "int option"
  quote_count :: "int option"

record TweetV2 =
  v2_id :: string
  v2_text :: string
  author_id :: "string option"
  public_metrics :: "PublicMetrics option"
  created_at :: "string option"

record UserV2 =
  u_id :: string
  u_username :: string
  u_name :: string
  u_verified :: "bool option"

record SearchResult =
  result_tweets :: "TweetV2 list"
  includes_users :: "UserV2 list"

text \<open>
  What the client returns for them. \<open>searchTweets\<close> fills four metrics, \<open>getTweet\<close> two; a
  user carries \<open>name\<close> and \<open>verified\<close> besides the declared fields.
\<close>

record TweetMetrics =
  likes :: int
  retweets :: int
  replies :: "int option"
  quotes :: "int option"

record Tweet =
  tweet_id :: string
  tweet_body :: string
  authorId :: string
  metrics :: TweetMetrics
  createdAt :: string

record TwitterUser =
  user_id :: string
  username :: string
  user_name :: string
  verified :: bool

text \<open>
  The answer of the v2 media endpoint to \<open>fetch\<close>: the promise rejects with an \<open>Error\<close> (its
  message), or resolves to a response with \<open>ok\<close>, its body as text, and its body as JSON
  (\<open>Inl\<close>: the message of the error that reading it throws). Of the JSON the uploader reads
  \<open>data.id\<close>, \<open>data.media_key\<close>, \<open>media_id_string\<close>, \<open>media_id\<close> and \<open>id\<close>.
\<close>

record upload_data =
  data_id :: jsval
  data_media_key :: jsval

record upload_json =
  json_data :: "upload_data option"
  json_media_id_string :: jsval
  json_media_id :: jsval
  json_id :: jsval

datatype fetch_result =
    Rejected string
  | Response bool string "string + upload_json"

text \<open>
  The trace: every call of the governor, every decoding of a payload and every remote call,
  in the order they happen; a remote call is logged with the answer it got.
\<close>

datatype event =
    CheckRateLimit string
  | Buffer_from string
  | Call_v2_tweet TweetOptions "thrown + PostedTweet"
  | Call_v1_uploadMedia bytes string "thrown + string"
  | Call_fetch_upload string bytes string string fetch_result
  | Call_v2_search string int "thrown + SearchResult"
  | Call_v2_singleTweet string "thrown + TweetV2"
  | Call_v2_deleteTweet string "thrown + bool"
  | Call_v1_destroy string "thrown + jsval"

text \<open>
  The environment of a client: the host's time zone, the clock readings of the next call of
  the governor, the runtime's base64 codec (\<open>Buffer.from(s, 'base64')\<close> and
  \<open>buf.toString('base64')\<close>), and the answer of the platform to each remote call. Clock and
  platform may depend on everything that happened before, so they take the trace so far.
\<close>

record env =
  host_of :: host
  clock_at :: "event list \<Rightarrow> clock"
  base64_decode :: "string \<Rightarrow> bytes"
  base64_encode :: "bytes \<Rightarrow> string"
  v2_tweet :: "event list \<Rightarrow> TweetOptions \<Rightarrow> thrown + PostedTweet"
  v1_uploadMedia :: "event list \<Rightarrow> bytes \<Rightarrow> string \<Rightarrow> thrown + string"
  fetch_upload :: "event list \<Rightarrow> string \<Rightarrow> bytes \<Rightarrow> string \<Rightarrow> string \<Rightarrow> fetch_result"
  v2_search :: "event list \<Rightarrow> string \<Rightarrow> int \<Rightarrow> thrown + SearchResult"
  v2_singleTweet :: "event list \<Rightarrow> string \<Rightarrow> thrown + TweetV2"
  v2_deleteTweet :: "event list \<Rightarrow> string \<Rightarrow> thrown + bool"
  v1_destroy :: "event list \<Rightarrow> string \<Rightarrow> thrown + jsval"

text \<open>
  The outcome of an asynchronous method: the value it resolves to or the exception it
  rejects with, the client it leaves, and the trace extended by what it did.
\<close>

type_synonym 'a outcome = "(thrown + 'a) \<times> TwitterClient \<times> event list"

text \<open>\<open>await this.checkRateLimit(endpoint)\<close>.\<close>

definition await_checkRateLimit :: "env \<Rightarrow> string \<Rightarrow> TwitterClient \<Rightarrow> event list \<Rightarrow> unit outcome" where
  "await_checkRateLimit env endpoint this tr =
     (case checkRateLimit (host_of env) (clock_at env tr) endpoint this of
        (Inl e, this') \<Rightarrow> (Inl (Tagged e), this', tr @ [CheckRateLimit endpoint])
      | (Inr u, this') \<Rightarrow> (Inr (), this', tr @ [CheckRateLimit endpoint]))"

text \<open>
  \<open>handleApiError\<close> never returns; the model yields the exception it throws. Its
  \<open>console.error\<close> output is not modelled.
\<close>

definition internal_error :: TwitterError where
  "internal_error =
     \<lparr>message = ''An unexpected error occurred'', code = Str ''internal_error'', status = Num 500\<rparr>"

fun handleApiError :: "thrown \<Rightarrow> thrown" where
  "handleApiError (Tagged e) = Tagged e"
| "handleApiError (JsError m c s) =
     (if truthy c
      then Tagged \<lparr>message = (if m \<noteq> [] then m else ''Twitter API error''), code = c, status = s\<rparr>
      else Tagged internal_error)"

text \<open>\<open>try { ... } catch (error) { this.handleApiError(error) }\<close> around a method body.\<close>

definition catch_handleApiError :: "'a outcome \<Rightarrow> 'a outcome" where
  "catch_handleApiError r =
     (case r of (Inl error, s) \<Rightarrow> (Inl (handleApiError error), s) | (Inr v, s) \<Rightarrow> (Inr v, s))"

text \<open>\<open>postTweet\<close>: the body of its \<open>try\<close>, and the method.\<close>

definition postTweet_try :: "env \<Rightarrow> string \<Rightarrow> string option \<Rightarrow> TwitterClient \<Rightarrow> event list \<Rightarrow> PostedTweet outcome" where
  "postTweet_try env text replyToTweetId this tr =
     (case await_checkRateLimit env ''tweets/create'' this tr of
        (Inl e, this1, tr1) \<Rightarrow> (Inl e, this1, tr1)
      | (Inr u, this1, tr1) \<Rightarrow>
          (let tweetOptions = \<lparr>tweet_text = text,
                                reply = (if truthy_str replyToTweetId then replyToTweetId else None),
                                media = None\<rparr>;
               response = v2_tweet env tr1 tweetOptions
           in (response, this1, tr1 @ [Call_v2_tweet tweetOptions response])))"

definition postTweet :: "env \<Rightarrow> string \<Rightarrow> string option \<Rightarrow> TwitterClient \<Rightarrow> event list \<Rightarrow> PostedTweet outcome" where
  "postTweet env text replyToTweetId this tr =
     catch_handleApiError (postTweet_try env text replyToTweetId this tr)"

section \<open>Media: the v2 uploader, \<open>uploadMedia\<close> and \<open>postTweetWithMedia\<close>\<close>

definition MAX_BASE64_SIZE :: nat where
  "MAX_BASE64_SIZE = 15 * 1024 * 1024"

definition MAX_MEDIA_FILE_SIZE :: nat where
  "MAX_MEDIA_FILE_SIZE = 5 * 1024 * 1024"

text \<open>
  \<open>V2MediaUploader.uploadMedia\<close> (\<open>media/v2-upload.ts\<close>): one \<open>fetch\<close>; every \<open>Error\<close> raised
  on the way is rethrown as a \<open>TwitterError\<close> with the code \<open>media_upload_failed\<close>.
\<close>

definition media_upload_failed :: "string \<Rightarrow> TwitterError" where
  "media_upload_failed m =
     \<lparr>message = ''V2 media upload failed: '' @ m, code = Str ''media_upload_failed'',
      status = Num 500\<rparr>"

definition upload_result_id :: "upload_json \<Rightarrow> jsval" where
  "upload_result_id result =
     (case json_data result of
        Some d \<Rightarrow> js_or (data_id d) (data_media_key d)
      | None \<Rightarrow> js_or (js_or (json_media_id_string result) (json_media_id result)) (json_id result))"

definition V2MediaUploader_uploadMedia ::
  "env \<Rightarrow> string \<Rightarrow> bytes \<Rightarrow> string \<Rightarrow> event list \<Rightarrow> (thrown + jsval) \<times> event list" where
  "V2MediaUploader_uploadMedia env bearer buffer mimeType tr =
     (let mediaCategory = (if startsWith mimeType ''image/'' then ''tweet_image'' else ''tweet_video'');
          response = fetch_upload env tr bearer buffer mimeType mediaCategory;
          tr1 = tr @ [Call_fetch_upload bearer buffer mimeType mediaCategory response]
      in case response of
           Rejected m \<Rightarrow> (Inl (Tagged (media_upload_failed m)), tr1)
         | Response ok errorText json \<Rightarrow>
             if \<not> ok then (Inl (Tagged (media_upload_failed (''Upload failed: '' @ errorText))), tr1)
             else
               (case json of
                  Inl m \<Rightarrow> (Inl (Tagged (media_upload_failed m)), tr1)
                | Inr result \<Rightarrow> (Inr (upload_result_id result), tr1)))"

definition file_too_large :: "nat \<Rightarrow> TwitterError" where
  "file_too_large len =
     \<lparr>message = ''Media file too large. Maximum size is ''
                  @ show_int (round_div (int MAX_MEDIA_FILE_SIZE) (1024 * 1024))
                  @ ''MB. Your file is '' @ show_int (round_div (int len) (1024 * 1024)) @ ''MB.'',
      code = Str ''file_too_large'',
      status = Num 400\<rparr>"

definition media_upload_forbidden :: TwitterError where
  "media_upload_forbidden =
     \<lparr>message = ''Media upload failed: This might be a scope issue (needs media.write) or authentication problem.'',
      code = Str ''media_upload_forbidden'',
      status = Num 403\<rparr>"

text \<open>\<open>uploadMedia\<close>: the body of its \<open>try\<close>, its \<open>catch\<close> clause, and the method.\<close>

definition uploadMedia_try :: "env \<Rightarrow> bytes \<Rightarrow> string \<Rightarrow> TwitterClient \<Rightarrow> event list \<Rightarrow> jsval outcome" where
  "uploadMedia_try env buffer mimeType this tr =
     (if length buffer > MAX_MEDIA_FILE_SIZE
      then (Inl (Tagged (file_too_large (length buffer))), this, tr)
      else
        (case await_checkRateLimit env ''media/upload'' this tr of
           (Inl e, this1, tr1) \<Rightarrow> (Inl e, this1, tr1)
         | (Inr u, this1, tr1) \<Rightarrow>
             (case (if authType (config this1) = Some oauth2 then v2MediaUploader this1 else None) of
                Some bearer \<Rightarrow>
                  (case V2MediaUploader_uploadMedia env bearer buffer mimeType tr1 of
                     (mediaId, tr2) \<Rightarrow> (mediaId, this1, tr2))
              | None \<Rightarrow>
                  (let answer = v1_uploadMedia env tr1 buffer mimeType
                   in (case answer of Inl e \<Rightarrow> Inl e | Inr m \<Rightarrow> Inr (Str m),
                       this1, tr1 @ [Call_v1_uploadMedia buffer mimeType answer])))))"

definition uploadMedia_catch :: "thrown \<Rightarrow> thrown" where
  "uploadMedia_catch error =
     (if str_includes (thrown_message error) ''scope'' \<or> str_includes (thrown_message error) ''403''
      then Tagged media_upload_forbidden
      else handleApiError error)"

definition uploadMedia :: "env \<Rightarrow> bytes \<Rightarrow> string \<Rightarrow> TwitterClient \<Rightarrow> event list \<Rightarrow> jsval outcome" where
  "uploadMedia env buffer mimeType this tr =
     (case uploadMedia_try env buffer mimeType this tr of
        (Inl error, s) \<Rightarrow> (Inl (uploadMedia_catch error), s)
      | (Inr mediaId, s) \<Rightarrow> (Inr mediaId, s))"

definition base64_too_large :: TwitterError where
  "base64_too_large =
     \<lparr>message = ''Base64 media data too large. Maximum size is ''
                  @ show_int (round_div (int MAX_BASE64_SIZE) (1024 * 1024)) @ ''MB encoded.'',
      code = Str ''base64_too_large'',
      status = Num 400\<rparr>"

definition invalid_base64 :: TwitterError where
  "invalid_base64 =
     \<lparr>message = ''Invalid base64 media data. Please ensure your media is properly base64 encoded.'',
      code = Str ''invalid_base64'',
      status = Num 400\<rparr>"

text \<open>
  The loop \<open>for (const item of mediaItems)\<close> of \<open>postTweetWithMedia\<close>, with the identifiers
  collected so far.
\<close>

fun postTweetWithMedia_loop ::
  "env \<Rightarrow> MediaItem list \<Rightarrow> jsval list \<Rightarrow> TwitterClient \<Rightarrow> event list \<Rightarrow> jsval list outcome" where
  "postTweetWithMedia_loop env [] mediaIds this tr = (Inr mediaIds, this, tr)"
| "postTweetWithMedia_loop env (item # items) mediaIds this tr =
     (if length (data item) > MAX_BASE64_SIZE
      then (Inl (Tagged base64_too_large), this, tr)
      else
        (let buffer = base64_decode env (data item);
             tr1 = tr @ [Buffer_from (data item)]
         in if base64_encode env buffer \<noteq> data item
            then (Inl (Tagged invalid_base64), this, tr1)
            else
              (case uploadMedia env buffer (media_type item) this tr1 of
                 (Inl e, this2, tr2) \<Rightarrow> (Inl e, this2, tr2)
               | (Inr mediaId, this2, tr2) \<Rightarrow>
                   postTweetWithMedia_loop env items (mediaIds @ [mediaId]) this2 tr2)))"

definition postTweetWithMedia_try ::
  "env \<Rightarrow> string \<Rightarrow> string option \<Rightarrow> MediaItem list option \<Rightarrow> TwitterClient \<Rightarrow> event list
     \<Rightarrow> PostedTweet outcome" where
  "postTweetWithMedia_try env text replyToTweetId mediaItems this tr =
     (case await_checkRateLimit env ''tweets/create'' this tr of
        (Inl e, this1, tr1) \<Rightarrow> (Inl e, this1, tr1)
      | (Inr u, this1, tr1) \<Rightarrow>
          (case (case mediaItems of
                   None \<Rightarrow> (Inr None, this1, tr1)
                 | Some items \<Rightarrow>
                     if length items > 0
                     then (case postTweetWithMedia_loop env items [] this1 tr1 of
                             (Inl e, s) \<Rightarrow> (Inl e, s)
                           | (Inr mediaIds, s) \<Rightarrow> (Inr (Some mediaIds), s))
                     else (Inr None, this1, tr1)) of
             (Inl e, this2, tr2) \<Rightarrow> (Inl e, this2, tr2)
           | (Inr attached, this2, tr2) \<Rightarrow>
               (let tweetOptions = \<lparr>tweet_text = text,
                                     reply = (if truthy_str replyToTweetId then replyToTweetId else None),
                                     media = attached\<rparr>;
                    response = v2_tweet env tr2 tweetOptions
                in (response, this2, tr2 @ [Call_v2_tweet tweetOptions response]))))"

definition postTweetWithMedia ::
  "env \<Rightarrow> string \<Rightarrow> string option \<Rightarrow> MediaItem list option \<Rightarrow> TwitterClient \<Rightarrow> event list
     \<Rightarrow> PostedTweet outcome" where
  "postTweetWithMedia env text replyToTweetId mediaItems this tr =
     catch_handleApiError (postTweetWithMedia_try env text replyToTweetId mediaItems this tr)"

section \<open>\<open>searchTweets\<close>, \<open>getTweet\<close> and \<open>deleteTweet\<close>\<close>

text \<open>\<open>x ?? d\<close> on an optional property.\<close>

definition nullish :: "'a option \<Rightarrow> 'a \<Rightarrow> 'a" where
  "nullish x d = (case x of None \<Rightarrow> d | Some v \<Rightarrow> v)"

definition search_tweet :: "TweetV2 \<Rightarrow> Tweet" where
  "search_tweet tweet =
     \<lparr>tweet_id = v2_id tweet,
      tweet_body = v2_text tweet,
      authorId = nullish (author_id tweet) '''',
      metrics =
        \<lparr>likes = nullish (case public_metrics tweet of None \<Rightarrow> None | Some pm \<Rightarrow> like_count pm) 0,
         retweets = nullish (case public_metrics tweet of None \<Rightarrow> None | Some pm \<Rightarrow> retweet_count pm) 0,
         replies = Some (nullish (case public_metrics tweet of None \<Rightarrow> None | Some pm \<Rightarrow> reply_count pm) 0),
         quotes = Some (nullish (case public_metrics tweet of None \<Rightarrow> None | Some pm \<Rightarrow> quote_count pm) 0)\<rparr>,
      createdAt = nullish (created_at tweet) ''''\<rparr>"

definition search_user :: "UserV2 \<Rightarrow> TwitterUser" where
  "search_user user =
     \<lparr>user_id = u_id user,
      username = u_username user,
      user_name = u_name user,
      verified = nullish (u_verified user) False\<rparr>"

definition searchTweets_try ::
  "env \<Rightarrow> string \<Rightarrow> int \<Rightarrow> TwitterClient \<Rightarrow> event list \<Rightarrow> (Tweet list \<times> TwitterUser list) outcome" where
  "searchTweets_try env query n this tr =
     (case await_checkRateLimit env ''tweets/search'' this tr of
        (Inl e, this1, tr1) \<Rightarrow> (Inl e, this1, tr1)
      | (Inr u, this1, tr1) \<Rightarrow>
          (let response = v2_search env tr1 query n
           in (case response of
                 Inl e \<Rightarrow> Inl e
               | Inr r \<Rightarrow> Inr (map search_tweet (result_tweets r), map search_user (includes_users r)),
               this1, tr1 @ [Call_v2_search query n response])))"

definition searchTweets ::
  "env \<Rightarrow> string \<Rightarrow> int \<Rightarrow> TwitterClient \<Rightarrow> event list \<Rightarrow> (Tweet list \<times> TwitterUser list) outcome" where
  "searchTweets env query n this tr = catch_handleApiError (searchTweets_try env query n this tr)"

definition lookup_tweet :: "TweetV2 \<Rightarrow> Tweet" where
  "lookup_tweet tweet =
     \<lparr>tweet_id = v2_id tweet,
      tweet_body = v2_text tweet,
      authorId = nullish (author_id tweet) '''',
      metrics =
        \<lparr>likes = nullish (case public_metrics tweet of None \<Rightarrow> None | Some pm \<Rightarrow> like_count pm) 0,
         retweets = nullish (case public_metrics tweet of None \<Rightarrow> None | Some pm \<Rightarrow> retweet_count pm) 0,
         replies = None,
         quotes = None\<rparr>,
      createdAt = nullish (created_at tweet) ''''\<rparr>"

definition getTweet_try :: "env \<Rightarrow> string \<Rightarrow> TwitterClient \<Rightarrow> event list \<Rightarrow> Tweet outcome" where
  "getTweet_try env tweetId this tr =
     (case await_checkRateLimit env ''tweets/lookup'' this tr of
        (Inl e, this1, tr1) \<Rightarrow> (Inl e, this1, tr1)
      | (Inr u, this1, tr1) \<Rightarrow>
          (let response = v2_singleTweet env tr1 tweetId
           in (case response of Inl e \<Rightarrow> Inl e | Inr t \<Rightarrow> Inr (lookup_tweet t),
               this1, tr1 @ [Call_v2_singleTweet tweetId response])))"

definition getTweet :: "env \<Rightarrow> string \<Rightarrow> TwitterClient \<Rightarrow> event list \<Rightarrow> Tweet outcome" where
  "getTweet env tweetId this tr = catch_handleApiError (getTweet_try env tweetId this tr)"

definition delete_unavailable :: TwitterError where
  "delete_unavailable =
     \<lparr>message = ''Tweet deletion failed: Twitter v2 delete endpoint is currently experiencing issues (500 error). ''
                  @ ''Unfortunately, OAuth 2.0 cannot use the v1.1 fallback. Please try again later or use OAuth 1.0a.'',
      code = Str ''delete_unavailable'',
      status = Num 500\<rparr>"

text \<open>
  \<open>deleteTweet\<close>. The inner \<open>catch (v2Error)\<close> is the function \<open>deleteTweet_fallback\<close>; the
  result of the method is \<open>{ deleted }\<close>, modelled by the boolean. Of the legacy response
  only \<open>id_str\<close> is read.
\<close>

definition deleteTweet_fallback ::
  "env \<Rightarrow> string \<Rightarrow> thrown \<Rightarrow> TwitterClient \<Rightarrow> event list \<Rightarrow> bool outcome" where
  "deleteTweet_fallback env tweetId v2Error this tr =
     (if thrown_code v2Error = Num 500 then
        (if authType (config this) = Some oauth1 then
           (let v1Response = v1_destroy env tr tweetId
            in (case v1Response of Inl e \<Rightarrow> Inl e | Inr id_str \<Rightarrow> Inr (truthy id_str),
                this, tr @ [Call_v1_destroy tweetId v1Response]))
         else (Inl (Tagged delete_unavailable), this, tr))
      else (Inl v2Error, this, tr))"

definition deleteTweet_try :: "env \<Rightarrow> string \<Rightarrow> TwitterClient \<Rightarrow> event list \<Rightarrow> bool outcome" where
  "deleteTweet_try env tweetId this tr =
     (case await_checkRateLimit env ''tweets/delete'' this tr of
        (Inl e, this1, tr1) \<Rightarrow> (Inl e, this1, tr1)
      | (Inr u, this1, tr1) \<Rightarrow>
          (let response = v2_deleteTweet env tr1 tweetId;
               tr2 = tr1 @ [Call_v2_deleteTweet tweetId response]
           in case response of
                Inr deleted \<Rightarrow> (Inr deleted, this1, tr2)
              | Inl v2Error \<Rightarrow> deleteTweet_fallback env tweetId v2Error this1 tr2))"

definition deleteTweet :: "env \<Rightarrow> string \<Rightarrow> TwitterClient \<Rightarrow> event list \<Rightarrow> bool outcome" where
  "deleteTweet env tweetId this tr = catch_handleApiError (deleteTweet_try env tweetId this tr)"

section \<open>The credential refresher (\<open>auth/oauth2-handler.ts\<close>)\<close>

text \<open>
  A \<open>Date\<close> that may be invalid: \<open>None\<close> is the time value \<open>NaN\<close>. \<open>new Date(v)\<close> clips a time
  value outside the range of \<open>Date\<close> to \<open>NaN\<close>.
\<close>

type_synonym date = "int option"

definition new_Date_of :: "int option \<Rightarrow> date" where
  "new_Date_of v =
     (case v of None \<Rightarrow> None
      | Some t \<Rightarrow> if \<bar>t\<bar> \<le> 8640000000000000 then Some t else None)"

text \<open>
  The fields of an \<open>OAuth2Handler\<close>; \<open>handler_client\<close> and \<open>tokenExpiresAt\<close> are \<open>None\<close> for
  \<open>null\<close>. The handle that \<open>new TwitterApi(token)\<close> makes from a token read off a response:
  the library keeps a string as its bearer token and reads it by truthiness, so a handle
  made from \<open>undefined\<close> or from the empty string carries no credential.
\<close>

datatype session = Session TwitterApi | Unauthenticated

definition new_TwitterApi :: "string option \<Rightarrow> session" where
  "new_TwitterApi token =
     (case token of
        None \<Rightarrow> Unauthenticated
      | Some a \<Rightarrow> if a = [] then Unauthenticated else Session (BearerClient a))"

record OAuth2Handler =
  handler_config :: Config
  handler_client :: "session option"
  tokenExpiresAt :: "date option"

text \<open>The JSON of a token response, as far as it is read.\<close>

record token_json =
  access_token :: "string option"
  refresh_token :: "string option"
  expires_in :: "int option"

datatype token_fetch =
    Token_rejected string
  | Token_response bool string "string + token_json"

text \<open>
  What a refresh does to the outside: the \<open>POST\<close> to the token endpoint, logged with the
  client id and secret of its \<open>Basic\<close> credentials, the refresh token of its body, and the
  answer; and the rewriting of the \<open>.env\<close> file, whose own failures \<open>updateEnvFile\<close> catches.
\<close>

datatype refresh_event =
    Call_fetch_token string string string token_fetch
  | Update_env_file token_json

text \<open>
  The environment of a handler: the clock read by \<open>shouldRefreshToken\<close> and the one read
  when the new expiry is computed, the token endpoint, and the runtime's \<open>Date\<close> parser and
  \<open>toISOString\<close>.
\<close>

record refresh_env =
  now_at_check :: int
  now_at_refresh :: int
  fetch_token :: "refresh_event list \<Rightarrow> string \<Rightarrow> string \<Rightarrow> string \<Rightarrow> token_fetch"
  Date_parse :: "string \<Rightarrow> date"
  toISOString :: "int \<Rightarrow> string"

type_synonym 'a refresh_outcome = "(string + 'a) \<times> OAuth2Handler \<times> refresh_event list"

text \<open>The constructor.\<close>

definition new_OAuth2Handler :: "refresh_env \<Rightarrow> Config \<Rightarrow> OAuth2Handler" where
  "new_OAuth2Handler env cfg =
     \<lparr>handler_config = cfg,
      handler_client = None,
      tokenExpiresAt =
        (case oauth2TokenExpiresAt cfg of
           None \<Rightarrow> None
         | Some s \<Rightarrow> if s \<noteq> [] then Some (Date_parse env s) else None)\<rparr>"

text \<open>\<open>shouldRefreshToken\<close>. A comparison with \<open>NaN\<close> is false.\<close>

definition shouldRefreshToken :: "refresh_env \<Rightarrow> OAuth2Handler \<Rightarrow> bool" where
  "shouldRefreshToken env this =
     (case tokenExpiresAt this of
        None \<Rightarrow> False
      | Some expiry \<Rightarrow>
          if \<not> truthy_str (oauth2RefreshToken (handler_config this)) then False
          else (case expiry of
                  None \<Rightarrow> False
                | Some t \<Rightarrow> t - now_at_check env < 5 * 60 * 1000))"

text \<open>
  \<open>refreshAccessToken\<close>. The two guards throw before the \<open>try\<close>; every error raised inside
  the \<open>try\<close> is rethrown with the prefix of the \<open>catch\<close> clause. The assignments made before a
  throw stay in the handler that is returned.
\<close>

definition refresh_failed :: "string \<Rightarrow> string" where
  "refresh_failed m = ''Failed to refresh OAuth 2.0 token: '' @ m"

definition refreshAccessToken ::
  "refresh_env \<Rightarrow> OAuth2Handler \<Rightarrow> refresh_event list \<Rightarrow> unit refresh_outcome" where
  "refreshAccessToken env this tr =
     (case (if truthy_str (oauth2RefreshToken (handler_config this))
            then oauth2RefreshToken (handler_config this) else None) of
        None \<Rightarrow>
          (Inl ''No refresh token available. Please re-authenticate using scripts/oauth2-setup.js'',
           this, tr)
      | Some refreshToken \<Rightarrow>
          (case (if truthy_str (oauth2ClientId (handler_config this))
                    \<and> truthy_str (oauth2ClientSecret (handler_config this))
                 then Some (nullish (oauth2ClientId (handler_config this)) [],
                            nullish (oauth2ClientSecret (handler_config this)) [])
                 else None) of
             None \<Rightarrow> (Inl ''Client ID and secret required for token refresh'', this, tr)
           | Some (clientId, clientSecret) \<Rightarrow>
               (let response = fetch_token env tr clientId clientSecret refreshToken;
                    tr1 = tr @ [Call_fetch_token clientId clientSecret refreshToken response]
                in case response of
                     Token_rejected m \<Rightarrow> (Inl (refresh_failed m), this, tr1)
                   | Token_response ok body json \<Rightarrow>
                       if \<not> ok then (Inl (refresh_failed (''Token refresh failed: '' @ body)), this, tr1)
                       else
                         (case json of
                            Inl m \<Rightarrow> (Inl (refresh_failed m), this, tr1)
                          | Inr tokens \<Rightarrow>
                              (let cfg1 = (handler_config this)\<lparr>oauth2AccessToken := access_token tokens\<rparr>;
                                   cfg2 = (if truthy_str (refresh_token tokens)
                                           then cfg1\<lparr>oauth2RefreshToken := refresh_token tokens\<rparr>
                                           else cfg1);
                                   expiry = new_Date_of
                                     (case expires_in tokens of
                                        None \<Rightarrow> None
                                      | Some secs \<Rightarrow> Some (now_at_refresh env + secs * 1000));
                                   this1 = this\<lparr>handler_config := cfg2, tokenExpiresAt := Some expiry\<rparr>
                               in case expiry of
                                    None \<Rightarrow> (Inl (refresh_failed ''Invalid time value''), this1, tr1)
                                  | Some t \<Rightarrow>
                                      (Inr (),
                                       this1\<lparr>handler_config :=
                                                cfg2\<lparr>oauth2TokenExpiresAt := Some (toISOString env t)\<rparr>,
                                              handler_client :=
                                                Some (new_TwitterApi (access_token tokens))\<rparr>,
                                       tr1 @ [Update_env_file tokens]))))))"

text \<open>\<open>getClient\<close>.\<close>

definition getClient ::
  "refresh_env \<Rightarrow> OAuth2Handler \<Rightarrow> refresh_event list \<Rightarrow> session refresh_outcome" where
  "getClient env this tr =
     (case (if shouldRefreshToken env this then refreshAccessToken env this tr
            else (Inr (), this, tr)) of
        (Inl e, this1, tr1) \<Rightarrow> (Inl e, this1, tr1)
      | (Inr u, this1, tr1) \<Rightarrow>
          (case handler_client this1 of
             Some c \<Rightarrow> (Inr c, this1, tr1)
           | None \<Rightarrow>
               (case oauth2AccessToken (handler_config this1) of
                  None \<Rightarrow>
                    (Inl ''OAuth 2.0 access token is required. Run scripts/oauth2-setup.js to authenticate.'',
                     this1, tr1)
                | Some a \<Rightarrow>
                    if a = []
                    then (Inl ''OAuth 2.0 access token is required. Run scripts/oauth2-setup.js to authenticate.'',
                          this1, tr1)
                    else (Inr (Session (BearerClient a)),
                          this1\<lparr>handler_client := Some (Session (BearerClient a))\<rparr>, tr1))))"

section \<open>Reading a trace\<close>

text \<open>
  What an upload call in the trace was about: the buffer and MIME type it sent, and the
  media identifier it returned (\<open>Inr\<close>) or the fact that it failed (\<open>Inl\<close>). Other events
  are no upload calls.
\<close>

fun upload_outcome :: "event \<Rightarrow> (bytes \<times> string \<times> (unit + jsval)) option" where
  "upload_outcome (Call_v1_uploadMedia buffer mimeType answer) =
     Some (buffer, mimeType, case answer of Inl e \<Rightarrow> Inl () | Inr m \<Rightarrow> Inr (Str m))"
| "upload_outcome (Call_fetch_upload bearer buffer mimeType category answer) =
     Some (buffer, mimeType,
           case answer of
             Rejected m \<Rightarrow> Inl ()
           | Response ok body json \<Rightarrow>
               if ok then (case json of Inl m \<Rightarrow> Inl () | Inr result \<Rightarrow> Inr (upload_result_id result))
               else Inl ())"
| "upload_outcome ev = None"



section \<open>Concrete inputs\<close>

text \<open>A host on UTC, a clock whose three readings coincide, and a client that made no call yet.\<close>

definition utc_host :: host where
  "utc_host = \<lparr>LocalTZA_utc = (\<lambda>t. 0), LocalTZA_local = (\<lambda>t. 0)\<rparr>"

definition instant :: "int \<Rightarrow> clock" where
  "instant t = \<lparr>new_Date = t, Date_now_check = t, Date_now_record = t\<rparr>"

definition oauth1_config :: Config where
  "oauth1_config =
     \<lparr>apiKey = Some ''test-key'', apiSecretKey = Some ''test-secret'',
      accessToken = Some ''test-token'', accessTokenSecret = Some ''test-token-secret'',
      authType = Some oauth1,
      oauth2ClientId = None, oauth2ClientSecret = None, oauth2AccessToken = None,
      oauth2RefreshToken = None, oauth2TokenExpiresAt = None\<rparr>"

definition fresh_client :: TwitterClient where
  "fresh_client =
     \<lparr>config = oauth1_config,
      client = OAuth1Client ''test-key'' ''test-secret'' ''test-token'' ''test-token-secret'',
      v2MediaUploader = None,
      rateLimitMap = Map.empty,
      dailyLimits = Map.empty\<rparr>"

text \<open>
  A caller that performs one \<open>checkRateLimit\<close> after the other on the same key, each with
  its own clock readings, and stops at the first one that throws.
\<close>

fun calls :: "host \<Rightarrow> string \<Rightarrow> clock list \<Rightarrow> TwitterClient \<Rightarrow> (TwitterError + unit) \<times> TwitterClient" where
  "calls h ep [] this = (Inr (), this)"
| "calls h ep (clk # clks) this =
     (case checkRateLimit h clk ep this of
        (Inl e, this') \<Rightarrow> (Inl e, this')
      | (Inr u, this') \<Rightarrow> calls h ep clks this')"

text \<open>
  A call is far enough from the last recorded one when the interval of the key has passed
  (or nothing is recorded); a list of calls is spaced when each is far enough from the one
  before.
\<close>

definition rate_ok :: "string \<Rightarrow> int option \<Rightarrow> clock \<Rightarrow> bool" where
  "rate_ok ep prev clk =
     (case prev of None \<Rightarrow> True | Some p \<Rightarrow> rateLimitOf ep \<le> Date_now_check clk - p)"

fun spaced :: "string \<Rightarrow> int option \<Rightarrow> clock list \<Rightarrow> bool" where
  "spaced ep prev [] = True"
| "spaced ep prev (clk # clks) =
     (rate_ok ep prev clk \<and> spaced ep (Some (Date_now_record clk)) clks)"

text \<open>Calls one minute apart, the first one second after the epoch.\<close>

definition spaced_instants :: "nat \<Rightarrow> clock list" where
  "spaced_instants n = map (\<lambda>i. instant (1000 + 60000 * int i)) [0..<n]"

text \<open>
  A host on Central European Time in 2024: UTC+1 until 2024-03-31T01:00:00Z
  (time value 1711846800000), UTC+2 from then on.
\<close>

definition cet_2024_host :: host where
  "cet_2024_host =
     \<lparr>LocalTZA_utc = (\<lambda>t. if t < 1711846800000 then 3600000 else 7200000),
      LocalTZA_local = (\<lambda>t. if t < 1711846800000 + 7200000 then 3600000 else 7200000)\<rparr>"

text \<open>Configurations of the legacy scheme that lack credentials.\<close>

definition only_key_config :: Config where
  "only_key_config =
     \<lparr>apiKey = Some ''test-key'', apiSecretKey = None, accessToken = None,
      accessTokenSecret = None, authType = Some oauth1,
      oauth2ClientId = None, oauth2ClientSecret = None, oauth2AccessToken = None,
      oauth2RefreshToken = None, oauth2TokenExpiresAt = None\<rparr>"

definition no_credentials_config :: Config where
  "no_credentials_config = only_key_config\<lparr>apiKey := None\<rparr>"

definition oauth2_config :: Config where
  "oauth2_config =
     \<lparr>apiKey = None, apiSecretKey = None, accessToken = None, accessTokenSecret = None,
      authType = Some oauth2,
      oauth2ClientId = Some ''client-id'', oauth2ClientSecret = Some ''client-secret'',
      oauth2AccessToken = Some ''oauth2-token-123'',
      oauth2RefreshToken = Some ''refresh-token-1'',
      oauth2TokenExpiresAt = Some ''2024-03-30T12:00:00.000Z''\<rparr>"

text \<open>
  A base64 codec in the manner of the runtime's, for concrete runs: encoding uses the
  alphabet of RFC 4648 and pads with \<open>=\<close>; decoding also accepts \<open>-\<close> and \<open>_\<close>, skips every
  other character outside the alphabet, and stops at the first \<open>=\<close>.
\<close>

definition b64_alphabet :: string where
  "b64_alphabet = ''ABCDEFGHIJKLMNOPQRSTUVWXYZabcdefghijklmnopqrstuvwxyz0123456789+/''"

definition sextet :: "char \<Rightarrow> nat option" where
  "sextet c =
     (if c = CHR ''-'' then Some 62
      else if c = CHR ''_'' then Some 63
      else (let i = length (takeWhile (\<lambda>x. x \<noteq> c) b64_alphabet)
            in if i < 64 then Some i else None))"

fun decode_sextets :: "nat list \<Rightarrow> bytes" where
  "decode_sextets (a # b # c # d # rest) =
     [of_nat (a * 4 + b div 16), of_nat ((b mod 16) * 16 + c div 4), of_nat ((c mod 4) * 64 + d)]
       @ decode_sextets rest"
| "decode_sextets [a, b, c] = [of_nat (a * 4 + b div 16), of_nat ((b mod 16) * 16 + c div 4)]"
| "decode_sextets [a, b] = [of_nat (a * 4 + b div 16)]"
| "decode_sextets [a] = []"
| "decode_sextets [] = []"

definition b64_decode :: "string \<Rightarrow> bytes" where
  "b64_decode s =
     decode_sextets (List.map_filter sextet (takeWhile (\<lambda>c. c \<noteq> CHR ''='') s))"

fun b64_encode :: "bytes \<Rightarrow> string" where
  "b64_encode (x # y # z # rest) =
     (let n = unat x * 65536 + unat y * 256 + unat z
      in [b64_alphabet ! (n div 262144), b64_alphabet ! (n div 4096 mod 64),
          b64_alphabet ! (n div 64 mod 64), b64_alphabet ! (n mod 64)] @ b64_encode rest)"
| "b64_encode [x, y] =
     (let n = unat x * 1024 + unat y * 4
      in [b64_alphabet ! (n div 4096), b64_alphabet ! (n div 64 mod 64),
          b64_alphabet ! (n mod 64), CHR ''=''])"
| "b64_encode [x] =
     (let n = unat x * 16
      in [b64_alphabet ! (n div 64), b64_alphabet ! (n mod 64), CHR ''='', CHR ''=''])"
| "b64_encode [] = []"

text \<open>
  An environment for concrete runs: a host on UTC whose clock advances by one minute with
  every event of the trace; a platform that accepts every call, names the first medium
  uploaded through v1 \<open>media-1\<close> and the later ones \<open>media-2\<close>, and answers the v2 delete
  call with the status 500.
\<close>

definition demo_env :: env where
  "demo_env =
     \<lparr>host_of = utc_host,
      clock_at = (\<lambda>tr. instant (1700000000000 + 60000 * int (length tr))),
      base64_decode = b64_decode,
      base64_encode = b64_encode,
      v2_tweet = (\<lambda>tr opts. Inr \<lparr>posted_id = ''125'', posted_text = tweet_text opts\<rparr>),
      v1_uploadMedia = (\<lambda>tr buffer mimeType.
         Inr (if list_ex (\<lambda>ev. upload_outcome ev \<noteq> None) tr then ''media-2'' else ''media-1'')),
      fetch_upload = (\<lambda>tr bearer buffer mimeType category.
         Response True []
           (Inr \<lparr>json_data = Some \<lparr>data_id = Str ''v2-media-1'', data_media_key = Undefined\<rparr>,
                 json_media_id_string = Undefined, json_media_id = Undefined,
                 json_id = Undefined\<rparr>)),
      v2_search = (\<lambda>tr query n. Inr \<lparr>result_tweets = [], includes_users = []\<rparr>),
      v2_singleTweet = (\<lambda>tr tweetId.
         Inr \<lparr>v2_id = tweetId, v2_text = ''Hello world!'', author_id = None,
              public_metrics = None, created_at = None\<rparr>),
      v2_deleteTweet = (\<lambda>tr tweetId. Inl (JsError ''Request failed with code 500'' (Num 500) Undefined)),
      v1_destroy = (\<lambda>tr tweetId. Inr (Str tweetId))\<rparr>"

text \<open>A client of the token scheme that made no call yet.\<close>

definition fresh_oauth2_client :: TwitterClient where
  "fresh_oauth2_client =
     \<lparr>config = oauth2_config,
      client = BearerClient ''oauth2-token-123'',
      v2MediaUploader = Some ''oauth2-token-123'',
      rateLimitMap = Map.empty,
      dailyLimits = Map.empty\<rparr>"

text \<open>
  Two platforms that fail: one drops every connection (the runtime's error carries no
  \<open>code\<close>), one refuses the v2 media upload with the status 403.
\<close>

definition hang_up :: thrown where
  "hang_up = JsError ''socket hang up'' Undefined Undefined"

definition failing_env :: env where
  "failing_env =
     demo_env
       \<lparr>v2_tweet := \<lambda>tr opts. Inl hang_up,
        v1_uploadMedia := \<lambda>tr buffer mimeType. Inl hang_up,
        fetch_upload := \<lambda>tr bearer buffer mimeType category. Rejected ''socket hang up'',
        v2_search := \<lambda>tr query n. Inl hang_up,
        v2_singleTweet := \<lambda>tr tweetId. Inl hang_up,
        v2_deleteTweet := \<lambda>tr tweetId. Inl hang_up,
        v1_destroy := \<lambda>tr tweetId. Inl hang_up\<rparr>"

definition forbidden_env :: env where
  "forbidden_env =
     demo_env\<lparr>fetch_upload := \<lambda>tr bearer buffer mimeType category.
                  Response False ''403 Forbidden'' (Inl [])\<rparr>"

text \<open>
  A token endpoint that refuses every refresh, on a host that reads the clock one minute
  before 2024-03-30T12:00:00Z (time value 1711800000000); the \<open>Date\<close> functions of the
  runtime are given on the dates of the run.
\<close>

definition refusing_env :: refresh_env where
  "refusing_env =
     \<lparr>now_at_check = 1711800000000 - 60000,
      now_at_refresh = 1711800000000 - 60000,
      fetch_token = (\<lambda>tr clientId clientSecret refreshToken.
         Token_response False ''invalid_request'' (Inl [])),
      Date_parse = (\<lambda>s. if s = ''2024-03-30T12:00:00.000Z'' then Some 1711800000000 else None),
      toISOString = (\<lambda>t. if t = 1711800000000 then ''2024-03-30T12:00:00.000Z'' else [])\<rparr>"

text \<open>
  A token endpoint that grants every refresh with a new access token, a new refresh token
  and a life of two hours, on the same host; 2024-03-30T13:59:00Z is the time value
  1711807140000.
\<close>

definition granted_tokens :: token_json where
  "granted_tokens =
     \<lparr>access_token = Some ''oauth2-token-456'',
      refresh_token = Some ''refresh-token-2'',
      expires_in = Some 7200\<rparr>"

definition granting_env :: refresh_env where
  "granting_env =
     \<lparr>now_at_check = 1711800000000 - 60000,
      now_at_refresh = 1711800000000 - 60000,
      fetch_token = (\<lambda>tr clientId clientSecret refreshToken.
         Token_response True [] (Inr granted_tokens)),
      Date_parse = (\<lambda>s. if s = ''2024-03-30T12:00:00.000Z'' then Some 1711800000000
                        else if s = ''2024-03-30T13:59:00.000Z'' then Some 1711807140000
                        else None),
      toISOString = (\<lambda>t. if t = 1711800000000 then ''2024-03-30T12:00:00.000Z''
                         else if t = 1711807140000 then ''2024-03-30T13:59:00.000Z''
                         else [])\<rparr>"

text \<open>
  Media items: two small images and a corrupt payload; 8 MiB of text that decodes to a
  file of 6 MiB; 16 MiB of valid text; and a corrupt payload one character longer than
  15 MiB.
\<close>

definition image1_item :: MediaItem where
  "image1_item = \<lparr>data = ''aW1hZ2Ux'', media_type = ''image/jpeg''\<rparr>"

definition image2_item :: MediaItem where
  "image2_item = \<lparr>data = ''aW1hZ2Uy'', media_type = ''image/png''\<rparr>"

definition invalid_item :: MediaItem where
  "invalid_item = \<lparr>data = ''invalid-base64-data!!!'', media_type = ''image/jpeg''\<rparr>"

definition six_MiB_item :: MediaItem where
  "six_MiB_item = \<lparr>data = replicate (4 * 2097152) CHR ''A'', media_type = ''image/jpeg''\<rparr>"

definition oversize_item :: MediaItem where
  "oversize_item = \<lparr>data = replicate (4 * 4194304) CHR ''A'', media_type = ''image/jpeg''\<rparr>"

definition corrupt_oversize_item :: MediaItem where
  "corrupt_oversize_item =
     \<lparr>data = replicate (MAX_BASE64_SIZE + 1) CHR ''!'', media_type = ''image/png''\<rparr>"

text \<open>A host whose clock advances by one millisecond with every event of the trace.\<close>

definition hasty_env :: env where
  "hasty_env = demo_env\<lparr>clock_at := \<lambda>tr. instant (1700000000000 + int (length tr))\<rparr>"

section \<open>Properties of the rate and quota governor\<close>

lemma ceil_div_real: "ceil_div a b = \<lceil>real_of_int a / real_of_int b\<rceil>"
proof -
  have "\<lfloor>real_of_int (- a) / real_of_int b\<rfloor> = (- a) div b"
    by (rule floor_divide_of_int_eq)
  then show ?thesis
    by (simp add: ceil_div_def ceiling_def)
qed

lemma ceil_div_pos: "0 < a \<Longrightarrow> 0 < b \<Longrightarrow> 1 \<le> ceil_div a b"
  by (simp add: ceil_div_real)

lemma rateLimitOf_configured: "RATE_LIMITS_MS ep = Some ms \<Longrightarrow> rateLimitOf ep = ms"
  by (simp add: rateLimitOf_def)

lemma checkRateLimit_records:
  "checkRateLimit h clk ep this = (Inr (), this1) \<Longrightarrow>
   rateLimitMap this1 ep = Some (Date_now_record clk)"
  by (auto simp: checkRateLimit_def Let_def split: option.splits if_splits)

lemma checkRateLimit_too_soon:
  assumes "rateLimitMap this ep = Some t" and "t \<noteq> 0"
    and "Date_now_check clk - t < rateLimitOf ep"
  shows "checkRateLimit h clk ep this =
           (Inl (rate_limit_error (ceil_div (rateLimitOf ep - (Date_now_check clk - t)) 1000) ep),
            this)"
  using assms by (simp add: checkRateLimit_def Let_def)

lemma checkRateLimit_late:
  assumes "rateLimitMap this ep = Some t" and "rateLimitOf ep \<le> Date_now_check clk - t"
    and "fst (checkRateLimit h clk ep this) = Inl e"
  shows "code e = Str ''daily_limit_exceeded''"
  using assms
  by (auto simp: checkRateLimit_def Let_def daily_limit_error_def split: option.splits if_splits)

text \<open>
  C1. Let \<open>endpoint\<close> be a key of \<open>RATE_LIMITS_MS\<close>, with interval \<open>interval\<close>, and let a call
  of \<open>checkRateLimit\<close> on it succeed; it records the time \<open>t\<close> it reads from \<open>Date.now()\<close>,
  a time value other than 0 (the epoch itself, which \<open>if (lastRequest)\<close> takes for "no
  previous request"). Let \<open>this2\<close> be any later state of the client that still holds this
  entry, and let the next call on the key read \<open>t'\<close> in its comparison. If
  \<open>t' - t < interval\<close> the call throws the error with code \<open>rate_limit_exceeded\<close> and status
  429 whose message names \<open>\<lceil>(interval - (t' - t)) / 1000\<rceil>\<close> seconds, a number that is at
  least 1, and leaves the client as it was. If \<open>t' - t \<ge> interval\<close> the call does not throw
  that error: whatever it throws has the code \<open>daily_limit_exceeded\<close>.
\<close>

theorem rate_limit_second_call:
  assumes configured: "RATE_LIMITS_MS endpoint = Some interval"
    and first: "checkRateLimit h clk endpoint this = (Inr (), this1)"
    and recorded: "t = Date_now_record clk" "t \<noteq> 0"
    and later: "rateLimitMap this2 endpoint = rateLimitMap this1 endpoint"
    and second: "t' = Date_now_check clk'"
  shows "(t' - t < interval \<longrightarrow>
           (let waitTime = ceil_div (interval - (t' - t)) 1000 in
              checkRateLimit h' clk' endpoint this2 = (Inl (rate_limit_error waitTime endpoint), this2)
            \<and> code (rate_limit_error waitTime endpoint) = Str ''rate_limit_exceeded''
            \<and> status (rate_limit_error waitTime endpoint) = Num 429
            \<and> message (rate_limit_error waitTime endpoint) =
                ''Rate limit: Please wait '' @ show_int waitTime @ '' seconds before next ''
                  @ endpoint @ '' request''
            \<and> waitTime = \<lceil>real_of_int (interval - (t' - t)) / 1000\<rceil>
            \<and> 1 \<le> waitTime))
       \<and> (interval \<le> t' - t \<longrightarrow>
           (\<forall>e. fst (checkRateLimit h' clk' endpoint this2) = Inl e \<longrightarrow>
                code e \<noteq> Str ''rate_limit_exceeded''))"
proof (intro conjI impI allI)
  have last: "rateLimitMap this2 endpoint = Some t"
    using checkRateLimit_records [OF first] later recorded by simp
  have lim: "rateLimitOf endpoint = interval"
    using configured by (rule rateLimitOf_configured)
  {
    assume soon: "t' - t < interval"
    have thrown: "checkRateLimit h' clk' endpoint this2 =
        (Inl (rate_limit_error (ceil_div (interval - (t' - t)) 1000) endpoint), this2)"
      using checkRateLimit_too_soon [OF last recorded(2), of clk' h'] soon lim second by simp
    have pos: "1 \<le> ceil_div (interval - (t' - t)) 1000"
      using soon by (intro ceil_div_pos) simp_all
    have ceil: "ceil_div (interval - (t' - t)) 1000 = \<lceil>real_of_int (interval - (t' - t)) / 1000\<rceil>"
      using ceil_div_real [of "interval - (t' - t)" 1000] by simp
    show "let waitTime = ceil_div (interval - (t' - t)) 1000 in
              checkRateLimit h' clk' endpoint this2 = (Inl (rate_limit_error waitTime endpoint), this2)
            \<and> code (rate_limit_error waitTime endpoint) = Str ''rate_limit_exceeded''
            \<and> status (rate_limit_error waitTime endpoint) = Num 429
            \<and> message (rate_limit_error waitTime endpoint) =
                ''Rate limit: Please wait '' @ show_int waitTime @ '' seconds before next ''
                  @ endpoint @ '' request''
            \<and> waitTime = \<lceil>real_of_int (interval - (t' - t)) / 1000\<rceil>
            \<and> 1 \<le> waitTime"
      unfolding Let_def using thrown pos ceil by (simp add: rate_limit_error_def)
  }
  {
    fix e
    assume "interval \<le> t' - t" and "fst (checkRateLimit h' clk' endpoint this2) = Inl e"
    then have "code e = Str ''daily_limit_exceeded''"
      using checkRateLimit_late [OF last, of clk' h' e] lim second by simp
    then show "code e \<noteq> Str ''rate_limit_exceeded''" by simp
  }
qed

theorem rate_limit_second_call_witness:
  "checkRateLimit utc_host (instant 2000) ''tweets/create''
       (snd (checkRateLimit utc_host (instant 1000) ''tweets/create'' fresh_client))
     = (Inl (rate_limit_error 59 ''tweets/create''),
        snd (checkRateLimit utc_host (instant 1000) ''tweets/create'' fresh_client))
   \<and> message (rate_limit_error 59 ''tweets/create'') =
       ''Rate limit: Please wait 59 seconds before next tweets/create request''
   \<and> fst (checkRateLimit utc_host (instant 61000) ''tweets/create''
         ((snd (checkRateLimit utc_host (instant 1000) ''tweets/create'' fresh_client))
            \<lparr>dailyLimits := [''tweets/create'' \<mapsto> \<lparr>count = 17, resetAt = 86401000\<rparr>]\<rparr>))
       = Inl (daily_limit_error 17 24)
   \<and> code (daily_limit_error 17 24) \<noteq> Str ''rate_limit_exceeded''"
proof -
  let ?ep = "''tweets/create''"
  let ?this1 = "snd (checkRateLimit utc_host (instant 1000) ?ep fresh_client)"
  let ?this2 = "?this1\<lparr>dailyLimits := [?ep \<mapsto> \<lparr>count = 17, resetAt = 86401000\<rparr>]\<rparr>"
  have configured: "RATE_LIMITS_MS ?ep = Some 60000"
    by (simp add: RATE_LIMITS_MS_def)
  have "fst (checkRateLimit utc_host (instant 1000) ?ep fresh_client) = Inr ()"
    by code_simp
  then have first: "checkRateLimit utc_host (instant 1000) ?ep fresh_client = (Inr (), ?this1)"
    by (metis prod.collapse)
  have t: "(1000::int) = Date_now_record (instant 1000)" "(1000::int) \<noteq> 0"
    by (simp_all add: instant_def)
  have soon: "(2000::int) = Date_now_check (instant 2000)"
    and late: "(61000::int) = Date_now_check (instant 61000)"
    by (simp_all add: instant_def)
  have same: "rateLimitMap ?this2 ?ep = rateLimitMap ?this1 ?ep"
    by simp
  have daily: "fst (checkRateLimit utc_host (instant 61000) ?ep ?this2) = Inl (daily_limit_error 17 24)"
    by code_simp
  have msg: "message (rate_limit_error 59 ?ep) =
      ''Rate limit: Please wait 59 seconds before next tweets/create request''"
    by code_simp
  from rate_limit_second_call [OF configured first t refl soon, of utc_host]
  have A: "checkRateLimit utc_host (instant 2000) ?ep ?this1 =
      (Inl (rate_limit_error 59 ?ep), ?this1)"
    by (simp add: ceil_div_def)
  from rate_limit_second_call [OF configured first t same late, of utc_host] daily
  have B: "code (daily_limit_error 17 24) \<noteq> Str ''rate_limit_exceeded''"
    by simp
  from A msg daily B show ?thesis by blast
qed

text \<open>
  C10. Whenever \<open>checkRateLimit\<close> throws, the client it leaves is the client it found: the
  map of last-call times and the map of daily counters are both unchanged.
\<close>

theorem checkRateLimit_atomic_on_failure:
  assumes "fst (checkRateLimit h clk endpoint this) = Inl e"
  shows "rateLimitMap (snd (checkRateLimit h clk endpoint this)) = rateLimitMap this
       \<and> dailyLimits (snd (checkRateLimit h clk endpoint this)) = dailyLimits this
       \<and> snd (checkRateLimit h clk endpoint this) = this"
  using assms
  by (auto simp: checkRateLimit_def Let_def split: option.splits if_splits)

theorem checkRateLimit_atomic_on_failure_witness:
  "fst (checkRateLimit utc_host (instant 2000) ''tweets/create''
          (snd (checkRateLimit utc_host (instant 1000) ''tweets/create'' fresh_client)))
     = Inl (rate_limit_error 59 ''tweets/create'')
   \<and> snd (checkRateLimit utc_host (instant 2000) ''tweets/create''
          (snd (checkRateLimit utc_host (instant 1000) ''tweets/create'' fresh_client)))
     = snd (checkRateLimit utc_host (instant 1000) ''tweets/create'' fresh_client)
   \<and> fst (checkRateLimit utc_host (instant 1021000) ''tweets/create''
          (snd (calls utc_host ''tweets/create'' (spaced_instants 17) fresh_client)))
     = Inl (daily_limit_error 17 24)
   \<and> snd (checkRateLimit utc_host (instant 1021000) ''tweets/create''
          (snd (calls utc_host ''tweets/create'' (spaced_instants 17) fresh_client)))
     = snd (calls utc_host ''tweets/create'' (spaced_instants 17) fresh_client)"
proof -
  have rate: "fst (checkRateLimit utc_host (instant 2000) ''tweets/create''
          (snd (checkRateLimit utc_host (instant 1000) ''tweets/create'' fresh_client)))
     = Inl (rate_limit_error 59 ''tweets/create'')"
    by code_simp
  have daily: "fst (checkRateLimit utc_host (instant 1021000) ''tweets/create''
          (snd (calls utc_host ''tweets/create'' (spaced_instants 17) fresh_client)))
     = Inl (daily_limit_error 17 24)"
    by code_simp
  from checkRateLimit_atomic_on_failure [OF rate] checkRateLimit_atomic_on_failure [OF daily]
    rate daily
  show ?thesis
    by simp
qed

lemma live_step:
  assumes "DAILY_LIMITS ep = Some limit" "dailyLimits this ep = Some tr" "count tr < limit"
    "new_Date clk \<le> resetAt tr" "rate_ok ep (rateLimitMap this ep) clk"
  shows "checkRateLimit h clk ep this =
    (Inr (), this\<lparr>dailyLimits := (dailyLimits this)(ep \<mapsto> tr\<lparr>count := count tr + 1\<rparr>),
                   rateLimitMap := (rateLimitMap this)(ep \<mapsto> Date_now_record clk)\<rparr>)"
  using assms by (auto simp: checkRateLimit_def rate_ok_def Let_def split: option.splits)

lemma first_step:
  assumes "DAILY_LIMITS ep = Some limit" "dailyLimits this ep = None" "rate_ok ep (rateLimitMap this ep) clk"
  shows "checkRateLimit h clk ep this =
    (Inr (), this\<lparr>dailyLimits := (dailyLimits this)(ep \<mapsto> \<lparr>count = 1, resetAt = setDate_next h (new_Date clk)\<rparr>),
                   rateLimitMap := (rateLimitMap this)(ep \<mapsto> Date_now_record clk)\<rparr>)"
  using assms by (auto simp: checkRateLimit_def rate_ok_def Let_def split: option.splits)

lemma stale_step:
  assumes "DAILY_LIMITS ep = Some limit" "dailyLimits this ep = Some tr" "resetAt tr < new_Date clk"
    "rate_ok ep (rateLimitMap this ep) clk"
  shows "checkRateLimit h clk ep this = checkRateLimit h clk ep (this\<lparr>dailyLimits := (dailyLimits this)(ep := None)\<rparr>)"
  using assms by (auto simp: checkRateLimit_def rate_ok_def Let_def split: option.splits)

lemma exhausted_step:
  assumes "DAILY_LIMITS ep = Some limit" "dailyLimits this ep = Some tr" "limit \<le> count tr"
    "new_Date clk \<le> resetAt tr" "rate_ok ep (rateLimitMap this ep) clk"
  shows "checkRateLimit h clk ep this =
    (Inl (daily_limit_error limit (ceil_div (resetAt tr - new_Date clk) (1000 * 60 * 60))), this)"
  using assms by (auto simp: checkRateLimit_def rate_ok_def Let_def split: option.splits)

lemma calls_live:
  assumes "DAILY_LIMITS ep = Some limit"
  shows "dailyLimits this ep = Some \<lparr>count = k, resetAt = R\<rparr> \<Longrightarrow> k + int (length clks) \<le> limit \<Longrightarrow>
    \<forall>c \<in> set clks. new_Date c \<le> R \<Longrightarrow> spaced ep (rateLimitMap this ep) clks \<Longrightarrow> clks \<noteq> [] \<Longrightarrow>
    \<exists>this'. calls h ep clks this = (Inr (), this') \<and>
       dailyLimits this' ep = Some \<lparr>count = k + int (length clks), resetAt = R\<rparr> \<and>
       rateLimitMap this' ep = Some (Date_now_record (last clks))"
proof (induction clks arbitrary: this k)
  case Nil then show ?case by simp
next
  case (Cons c cs)
  let ?this1 = "this\<lparr>dailyLimits := (dailyLimits this)(ep \<mapsto> \<lparr>count = k + 1, resetAt = R\<rparr>),
                   rateLimitMap := (rateLimitMap this)(ep \<mapsto> Date_now_record c)\<rparr>"
  have step: "checkRateLimit h c ep this = (Inr (), ?this1)"
    using live_step [OF assms Cons.prems(1), of c h] Cons.prems by simp
  show ?case
  proof (cases "cs = []")
    case True
    then show ?thesis using step by simp
  next
    case False
    have "\<exists>this'. calls h ep cs ?this1 = (Inr (), this') \<and>
       dailyLimits this' ep = Some \<lparr>count = (k + 1) + int (length cs), resetAt = R\<rparr> \<and>
       rateLimitMap this' ep = Some (Date_now_record (last cs))"
      using Cons.prems False by (intro Cons.IH) simp_all
    then show ?thesis using step False by (simp add: ac_simps)
  qed
qed

lemma daily_keys: "endpoint \<in> {''tweets/create'', ''tweets/delete'', ''media/upload''} \<longleftrightarrow> DAILY_LIMITS endpoint \<noteq> None"
  by (auto simp: DAILY_LIMITS_def)

lemma daily_17: "DAILY_LIMITS endpoint = Some n \<Longrightarrow> n = 17"
  by (auto simp: DAILY_LIMITS_def split: if_splits)

lemma setDate_next_fixed:
  "(\<forall>u. LocalTZA_utc h u = off) \<and> (\<forall>u. LocalTZA_local h u = off) \<Longrightarrow> setDate_next h t = t + 24 * 60 * 60 * 1000"
  by (simp add: setDate_next_def msPerDay_def Let_def)

text \<open>
  C2, as the code has it. The keys \<open>tweets/create\<close>, \<open>tweets/delete\<close> and \<open>media/upload\<close>
  have the daily ceiling 17. On a client with no counter for such a key, the first call
  creates the counter with count 1 and the reset time \<open>R\<close>, one calendar day after that call
  in the host's local time. Seventeen spaced calls made no later than \<open>R\<close> all succeed and
  leave the count at 17. From there a call that is far enough from the last one and not
  later than \<open>R\<close> (the instant \<open>R\<close> included) throws the daily-limit error naming
  \<open>\<lceil>(R - now) / 3600000\<rceil>\<close> hours and changes nothing; a call strictly later than \<open>R\<close> runs
  exactly as on a client whose counter was removed: it succeeds and leaves a counter with
  count 1 and a reset time one calendar day after this call. On a host whose offset from
  UTC is constant, one calendar day is 24 hours.
\<close>

theorem daily_ceiling:
  assumes key: "endpoint \<in> {''tweets/create'', ''tweets/delete'', ''media/upload''}"
    and no_counter: "dailyLimits this endpoint = None"
    and seventeen: "length clks = 17"
    and gaps: "spaced endpoint (rateLimitMap this endpoint) clks"
    and R: "R = setDate_next h (new_Date (hd clks))"
    and before: "\<forall>c \<in> set clks. new_Date c \<le> R"
  shows "DAILY_LIMITS endpoint = Some 17
    \<and> dailyLimits (snd (checkRateLimit h (hd clks) endpoint this)) endpoint = Some \<lparr>count = 1, resetAt = R\<rparr>
    \<and> (\<exists>this17. calls h endpoint clks this = (Inr (), this17)
        \<and> dailyLimits this17 endpoint = Some \<lparr>count = 17, resetAt = R\<rparr>
        \<and> (\<forall>clk. rate_ok endpoint (rateLimitMap this17 endpoint) clk \<and> new_Date clk \<le> R \<longrightarrow>
              checkRateLimit h clk endpoint this17 =
                (Inl (daily_limit_error 17 (ceil_div (R - new_Date clk) (1000 * 60 * 60))), this17)
              \<and> ceil_div (R - new_Date clk) (1000 * 60 * 60)
                  = \<lceil>real_of_int (R - new_Date clk) / (1000 * 60 * 60)\<rceil>)
        \<and> (\<forall>clk. rate_ok endpoint (rateLimitMap this17 endpoint) clk \<and> R < new_Date clk \<longrightarrow>
              checkRateLimit h clk endpoint this17 =
                checkRateLimit h clk endpoint (this17\<lparr>dailyLimits := (dailyLimits this17)(endpoint := None)\<rparr>)
              \<and> fst (checkRateLimit h clk endpoint this17) = Inr ()
              \<and> dailyLimits (snd (checkRateLimit h clk endpoint this17)) endpoint
                  = Some \<lparr>count = 1, resetAt = setDate_next h (new_Date clk)\<rparr>))
    \<and> (\<forall>off t. (\<forall>u. LocalTZA_utc h u = off) \<and> (\<forall>u. LocalTZA_local h u = off) \<longrightarrow>
          setDate_next h t = t + 24 * 60 * 60 * 1000)"
proof -
  have lim: "DAILY_LIMITS endpoint = Some 17"
    using key by (auto simp: DAILY_LIMITS_def)
  obtain c cs where clks: "clks = c # cs" and cs: "length cs = 16"
    using seventeen by (cases clks) simp_all
  let ?this1 = "this\<lparr>dailyLimits := (dailyLimits this)(endpoint \<mapsto> \<lparr>count = 1, resetAt = R\<rparr>),
                   rateLimitMap := (rateLimitMap this)(endpoint \<mapsto> Date_now_record c)\<rparr>"
  have one: "checkRateLimit h c endpoint this = (Inr (), ?this1)"
    using first_step [OF lim no_counter, of c h] gaps clks R by simp
  have "\<exists>this'. calls h endpoint cs ?this1 = (Inr (), this') \<and>
       dailyLimits this' endpoint = Some \<lparr>count = 1 + int (length cs), resetAt = R\<rparr> \<and>
       rateLimitMap this' endpoint = Some (Date_now_record (last cs))"
    using cs before gaps clks by (intro calls_live [OF lim]) auto
  then obtain this17 where run: "calls h endpoint cs ?this1 = (Inr (), this17)"
    and full: "dailyLimits this17 endpoint = Some \<lparr>count = 17, resetAt = R\<rparr>"
    using cs by auto
  have all: "calls h endpoint clks this = (Inr (), this17)"
    using one run clks by simp
  have exhausted: "checkRateLimit h clk endpoint this17 =
                (Inl (daily_limit_error 17 (ceil_div (R - new_Date clk) (1000 * 60 * 60))), this17)"
    if "rate_ok endpoint (rateLimitMap this17 endpoint) clk" "new_Date clk \<le> R" for clk
    using exhausted_step [OF lim full, of clk h] that by simp
  have ceil: "ceil_div (R - new_Date clk) (1000 * 60 * 60)
                  = \<lceil>real_of_int (R - new_Date clk) / (1000 * 60 * 60)\<rceil>" for clk
    using ceil_div_real [of "R - new_Date clk" "1000 * 60 * 60"] by simp
  let ?reset = "this17\<lparr>dailyLimits := (dailyLimits this17)(endpoint := None)\<rparr>"
  have stale: "checkRateLimit h clk endpoint this17 = checkRateLimit h clk endpoint ?reset"
    if "rate_ok endpoint (rateLimitMap this17 endpoint) clk" "R < new_Date clk" for clk
    using stale_step [OF lim full, of clk h] that by simp
  have again: "fst (checkRateLimit h clk endpoint this17) = Inr ()
       \<and> dailyLimits (snd (checkRateLimit h clk endpoint this17)) endpoint
                  = Some \<lparr>count = 1, resetAt = setDate_next h (new_Date clk)\<rparr>"
    if "rate_ok endpoint (rateLimitMap this17 endpoint) clk" "R < new_Date clk" for clk
    using stale [OF that] first_step [OF lim, of ?reset clk h] that by simp
  have fixed: "setDate_next h t = t + 24 * 60 * 60 * 1000"
    if "(\<forall>u. LocalTZA_utc h u = off) \<and> (\<forall>u. LocalTZA_local h u = off)" for off t
    using that by (rule setDate_next_fixed)
  have start: "dailyLimits (snd (checkRateLimit h (hd clks) endpoint this)) endpoint = Some \<lparr>count = 1, resetAt = R\<rparr>"
    using one clks by simp
  show ?thesis
    using lim start all full exhausted ceil stale again fixed by blast
qed

theorem daily_ceiling_witness:
  "calls utc_host ''tweets/create'' (spaced_instants 17) fresh_client
     = (Inr (), snd (calls utc_host ''tweets/create'' (spaced_instants 17) fresh_client))
   \<and> dailyLimits (snd (calls utc_host ''tweets/create'' (spaced_instants 17) fresh_client))
         ''tweets/create'' = Some \<lparr>count = 17, resetAt = 86401000\<rparr>
   \<and> checkRateLimit utc_host (instant 1021000) ''tweets/create''
         (snd (calls utc_host ''tweets/create'' (spaced_instants 17) fresh_client))
     = (Inl (daily_limit_error 17 24),
        snd (calls utc_host ''tweets/create'' (spaced_instants 17) fresh_client))
   \<and> fst (checkRateLimit utc_host (instant 86401001) ''tweets/create''
         (snd (calls utc_host ''tweets/create'' (spaced_instants 17) fresh_client))) = Inr ()
   \<and> dailyLimits (snd (checkRateLimit utc_host (instant 86401001) ''tweets/create''
         (snd (calls utc_host ''tweets/create'' (spaced_instants 17) fresh_client))))
         ''tweets/create'' = Some \<lparr>count = 1, resetAt = 172801001\<rparr>
   \<and> setDate_next utc_host 86401001 = 172801001"
proof -
  let ?ep = "''tweets/create''"
  let ?S = "snd (calls utc_host ?ep (spaced_instants 17) fresh_client)"
  have key: "?ep \<in> {''tweets/create'', ''tweets/delete'', ''media/upload''}"
    by simp
  have no_counter: "dailyLimits fresh_client ?ep = None"
    by (simp add: fresh_client_def)
  have seventeen: "length (spaced_instants 17) = 17"
    by (simp add: spaced_instants_def)
  have gaps: "spaced ?ep (rateLimitMap fresh_client ?ep) (spaced_instants 17)"
    by code_simp
  have R: "(86401000::int) = setDate_next utc_host (new_Date (hd (spaced_instants 17)))"
    by code_simp
  have before: "\<forall>c \<in> set (spaced_instants 17). new_Date c \<le> 86401000"
    by code_simp
  have utc: "(\<forall>u. LocalTZA_utc utc_host u = 0) \<and> (\<forall>u. LocalTZA_local utc_host u = 0)"
    by (simp add: utc_host_def)
  have r18: "rate_ok ?ep (rateLimitMap ?S ?ep) (instant 1021000) \<and> new_Date (instant 1021000) \<le> 86401000"
    by code_simp
  have r19: "rate_ok ?ep (rateLimitMap ?S ?ep) (instant 86401001) \<and> 86401000 < new_Date (instant 86401001)"
    by code_simp
  have h: "ceil_div (86401000 - new_Date (instant 1021000)) (1000 * 60 * 60) = 24"
    by code_simp
  from daily_ceiling [OF key no_counter seventeen gaps R before]
  obtain this17 where run: "calls utc_host ?ep (spaced_instants 17) fresh_client = (Inr (), this17)"
    and full: "dailyLimits this17 ?ep = Some \<lparr>count = 17, resetAt = 86401000\<rparr>"
    and exhausted: "\<And>clk. rate_ok ?ep (rateLimitMap this17 ?ep) clk \<and> new_Date clk \<le> 86401000 \<Longrightarrow>
              checkRateLimit utc_host clk ?ep this17 =
                (Inl (daily_limit_error 17 (ceil_div (86401000 - new_Date clk) (1000 * 60 * 60))), this17)"
    and again: "\<And>clk. rate_ok ?ep (rateLimitMap this17 ?ep) clk \<and> 86401000 < new_Date clk \<Longrightarrow>
              fst (checkRateLimit utc_host clk ?ep this17) = Inr ()
              \<and> dailyLimits (snd (checkRateLimit utc_host clk ?ep this17)) ?ep
                  = Some \<lparr>count = 1, resetAt = setDate_next utc_host (new_Date clk)\<rparr>"
    and fixed: "\<And>off t. (\<forall>u. LocalTZA_utc utc_host u = off) \<and> (\<forall>u. LocalTZA_local utc_host u = off) \<Longrightarrow>
          setDate_next utc_host t = t + 24 * 60 * 60 * 1000"
    by blast
  have S: "this17 = ?S"
    using run by simp
  have next_day: "setDate_next utc_host 86401001 = 172801001"
    using fixed [OF utc, of 86401001] by simp
  have n19: "new_Date (instant 86401001) = 86401001"
    by (simp add: instant_def)
  show ?thesis
    using run full exhausted [OF r18 [folded S]] again [OF r19 [folded S]] h next_day n19
    unfolding S by simp
qed

text \<open>
  At the reset time itself the counter is still live: the eighteenth call throws and names
  0 hours. On Central European Time the counter created at noon UTC of 2024-03-30 is
  reset 23 hours later.
\<close>

theorem daily_ceiling_counterexample:
  "dailyLimits (snd (calls utc_host ''tweets/create'' (spaced_instants 17) fresh_client))
      ''tweets/create'' = Some \<lparr>count = 17, resetAt = 86401000\<rparr>
   \<and> fst (checkRateLimit utc_host (instant 86401000) ''tweets/create''
         (snd (calls utc_host ''tweets/create'' (spaced_instants 17) fresh_client)))
       = Inl (daily_limit_error 17 0)
   \<and> dailyLimits (snd (checkRateLimit cet_2024_host (instant 1711800000000) ''tweets/create''
         fresh_client)) ''tweets/create''
       = Some \<lparr>count = 1, resetAt = 1711800000000 + 23 * 60 * 60 * 1000\<rparr>"
  by code_simp

section \<open>Properties of the credential provider\<close>

text \<open>
  C8, as the code has it. \<open>createTwitterClient\<close> returns a handle exactly when the branch of
  the active scheme is fully populated: under \<open>oauth2\<close> the access token is a non-empty
  string; under any other scheme the four credentials are non-empty strings. Otherwise it
  throws the one fixed message of the scheme. That message names every variable the scheme
  requires, whichever of them are missing. The function computes its result from the
  configuration alone.
\<close>

theorem credential_provider:
  "((\<exists>api. createTwitterClient cfg = Inr api) \<longleftrightarrow>
      (if authType cfg = Some oauth2 then truthy_str (oauth2AccessToken cfg)
       else truthy_str (apiKey cfg) \<and> truthy_str (apiSecretKey cfg)
          \<and> truthy_str (accessToken cfg) \<and> truthy_str (accessTokenSecret cfg)))
   \<and> (\<forall>e. createTwitterClient cfg = Inl e \<longrightarrow>
          e = (if authType cfg = Some oauth2 then OAUTH2_REQUIRED else OAUTH1_REQUIRED))
   \<and> str_includes OAUTH2_REQUIRED ''OAUTH2_ACCESS_TOKEN''
   \<and> str_includes OAUTH1_REQUIRED ''API_KEY''
   \<and> str_includes OAUTH1_REQUIRED ''API_SECRET_KEY''
   \<and> str_includes OAUTH1_REQUIRED ''ACCESS_TOKEN''
   \<and> str_includes OAUTH1_REQUIRED ''ACCESS_TOKEN_SECRET''"
proof -
  have success: "(\<exists>api. createTwitterClient cfg = Inr api) \<longleftrightarrow>
      (if authType cfg = Some oauth2 then truthy_str (oauth2AccessToken cfg)
       else truthy_str (apiKey cfg) \<and> truthy_str (apiSecretKey cfg)
          \<and> truthy_str (accessToken cfg) \<and> truthy_str (accessTokenSecret cfg))"
    by (auto simp: createTwitterClient_def split: option.splits elim!: truthy_str.elims)
  have failure: "e = (if authType cfg = Some oauth2 then OAUTH2_REQUIRED else OAUTH1_REQUIRED)"
    if "createTwitterClient cfg = Inl e" for e
    using that by (auto simp: createTwitterClient_def split: option.splits if_splits)
  have names: "str_includes OAUTH2_REQUIRED ''OAUTH2_ACCESS_TOKEN''"
    "str_includes OAUTH1_REQUIRED ''API_KEY''"
    "str_includes OAUTH1_REQUIRED ''API_SECRET_KEY''"
    "str_includes OAUTH1_REQUIRED ''ACCESS_TOKEN''"
    "str_includes OAUTH1_REQUIRED ''ACCESS_TOKEN_SECRET''"
    by code_simp+
  show ?thesis
    using success failure names by blast
qed

theorem credential_provider_witness:
  "createTwitterClient oauth1_config
     = Inr (OAuth1Client ''test-key'' ''test-secret'' ''test-token'' ''test-token-secret'')
   \<and> createTwitterClient oauth2_config = Inr (BearerClient ''oauth2-token-123'')
   \<and> createTwitterClient only_key_config = Inl OAUTH1_REQUIRED
   \<and> createTwitterClient (oauth2_config\<lparr>oauth2AccessToken := Some []\<rparr>) = Inl OAUTH2_REQUIRED"
proof -
  have ok1: "createTwitterClient oauth1_config
     = Inr (OAuth1Client ''test-key'' ''test-secret'' ''test-token'' ''test-token-secret'')"
    and ok2: "createTwitterClient oauth2_config = Inr (BearerClient ''oauth2-token-123'')"
    by code_simp+
  have "\<not> (if authType only_key_config = Some oauth2
            then truthy_str (oauth2AccessToken only_key_config)
            else truthy_str (apiKey only_key_config) \<and> truthy_str (apiSecretKey only_key_config)
               \<and> truthy_str (accessToken only_key_config)
               \<and> truthy_str (accessTokenSecret only_key_config))"
    by (simp add: only_key_config_def)
  with credential_provider [of only_key_config]
  have "\<nexists>api. createTwitterClient only_key_config = Inr api"
    by blast
  then obtain e1 where e1: "createTwitterClient only_key_config = Inl e1"
    by (cases "createTwitterClient only_key_config") auto
  with credential_provider [of only_key_config]
  have bad1: "createTwitterClient only_key_config = Inl OAUTH1_REQUIRED"
    by (simp add: only_key_config_def)
  let ?c = "oauth2_config\<lparr>oauth2AccessToken := Some []\<rparr>"
  have "\<not> (if authType ?c = Some oauth2 then truthy_str (oauth2AccessToken ?c)
            else truthy_str (apiKey ?c) \<and> truthy_str (apiSecretKey ?c)
               \<and> truthy_str (accessToken ?c) \<and> truthy_str (accessTokenSecret ?c))"
    by (simp add: oauth2_config_def)
  with credential_provider [of ?c]
  have "\<nexists>api. createTwitterClient ?c = Inr api"
    by blast
  then obtain e2 where e2: "createTwitterClient ?c = Inl e2"
    by (cases "createTwitterClient ?c") auto
  with credential_provider [of ?c]
  have bad2: "createTwitterClient ?c = Inl OAUTH2_REQUIRED"
    by (simp add: oauth2_config_def)
  from ok1 ok2 bad1 bad2 show ?thesis by simp
qed

text \<open>
  The error does not tell which fields are missing: with only \<open>API_KEY\<close> present the message
  still names \<open>API_KEY\<close>, and it is the message thrown when nothing is present.
\<close>

theorem credential_provider_counterexample:
  "createTwitterClient only_key_config = Inl OAUTH1_REQUIRED
   \<and> truthy_str (apiKey only_key_config)
   \<and> str_includes OAUTH1_REQUIRED ''API_KEY''
   \<and> \<not> truthy_str (apiKey no_credentials_config)
   \<and> createTwitterClient no_credentials_config = createTwitterClient only_key_config"
  by code_simp

section \<open>Properties of the request broker\<close>

text \<open>The definitions unfolded when a concrete run is evaluated.\<close>

lemmas run_defs =
  await_checkRateLimit_def checkRateLimit_def rateLimitOf_def RATE_LIMITS_MS_def DAILY_LIMITS_def
  uploadMedia_def uploadMedia_try_def uploadMedia_catch_def V2MediaUploader_uploadMedia_def
  MAX_MEDIA_FILE_SIZE_def MAX_BASE64_SIZE_def Let_def


lemma checkRateLimit_keeps:
  "config (snd (checkRateLimit h clk ep this)) = config this
   \<and> client (snd (checkRateLimit h clk ep this)) = client this
   \<and> v2MediaUploader (snd (checkRateLimit h clk ep this)) = v2MediaUploader this"
  by (auto simp: checkRateLimit_def Let_def split: option.splits)

lemma await_checkRateLimit_trace:
  "await_checkRateLimit env ep this tr = (r, this1, tr1) \<Longrightarrow>
   tr1 = tr @ [CheckRateLimit ep] \<and> config this1 = config this
   \<and> client this1 = client this \<and> v2MediaUploader this1 = v2MediaUploader this"
  using checkRateLimit_keeps [of "host_of env" "clock_at env tr" ep this]
  by (auto simp: await_checkRateLimit_def split: prod.splits sum.splits)

lemma await_checkRateLimit_tagged:
  "await_checkRateLimit env ep this tr = (Inl e, this1, tr1) \<Longrightarrow> \<exists>t. e = Tagged t"
  by (auto simp: await_checkRateLimit_def split: prod.splits sum.splits)

text \<open>
  C3. Let the quota check of \<open>deleteTweet\<close> pass and the v2 delete call fail with the
  exception \<open>v2Error\<close>. The trace then holds the quota check and the v2 call. If the \<open>code\<close>
  of \<open>v2Error\<close> is the number 500: under \<open>oauth1\<close> the client calls the legacy endpoint once
  and returns \<open>deleted = !!id_str\<close>, which for a string \<open>id_str\<close> is true exactly when it is
  non-empty (a failure of the legacy call leaves through \<open>handleApiError\<close>); under any
  other scheme, \<open>oauth2\<close> that is, it throws the error with code \<open>delete_unavailable\<close> and
  the trace holds no legacy call.
  With any other \<open>code\<close> the v2 error leaves through \<open>handleApiError\<close>, and no legacy call
  is made.
\<close>

theorem delete_fallback:
  assumes quota: "await_checkRateLimit env ''tweets/delete'' this tr = (Inr (), this1, tr1)"
    and fails: "v2_deleteTweet env tr1 tweetId = Inl v2Error"
    and tr2: "tr2 = tr1 @ [Call_v2_deleteTweet tweetId (Inl v2Error)]"
  shows "tr2 = tr @ [CheckRateLimit ''tweets/delete'', Call_v2_deleteTweet tweetId (Inl v2Error)]
    \<and> (thrown_code v2Error = Num 500 \<and> authType (config this) = Some oauth1 \<longrightarrow>
          deleteTweet env tweetId this tr =
            (case v1_destroy env tr2 tweetId of
               Inl e \<Rightarrow> Inl (handleApiError e)
             | Inr id_str \<Rightarrow> Inr (truthy id_str),
             this1, tr2 @ [Call_v1_destroy tweetId (v1_destroy env tr2 tweetId)])
          \<and> (\<forall>s. v1_destroy env tr2 tweetId = Inr (Str s) \<longrightarrow>
                fst (deleteTweet env tweetId this tr) = Inr (s \<noteq> [])))
    \<and> (thrown_code v2Error = Num 500 \<and> authType (config this) \<noteq> Some oauth1 \<longrightarrow>
          deleteTweet env tweetId this tr = (Inl (Tagged delete_unavailable), this1, tr2)
          \<and> code delete_unavailable = Str ''delete_unavailable'')
    \<and> (thrown_code v2Error \<noteq> Num 500 \<longrightarrow>
          deleteTweet env tweetId this tr = (Inl (handleApiError v2Error), this1, tr2))"
proof -
  from await_checkRateLimit_trace [OF quota]
  have tr1: "tr1 = tr @ [CheckRateLimit ''tweets/delete'']" and cfg: "config this1 = config this"
    by simp_all
  have body: "deleteTweet_try env tweetId this tr = deleteTweet_fallback env tweetId v2Error this1 tr2"
    using quota fails tr2 by (simp add: deleteTweet_try_def Let_def)
  have trace: "tr2 = tr @ [CheckRateLimit ''tweets/delete'', Call_v2_deleteTweet tweetId (Inl v2Error)]"
    using tr1 tr2 by simp
  have legacy: "deleteTweet env tweetId this tr =
            (case v1_destroy env tr2 tweetId of
               Inl e \<Rightarrow> Inl (handleApiError e)
             | Inr id_str \<Rightarrow> Inr (truthy id_str),
             this1, tr2 @ [Call_v1_destroy tweetId (v1_destroy env tr2 tweetId)])"
    if "thrown_code v2Error = Num 500" "authType (config this) = Some oauth1"
    using that body cfg
    by (simp add: deleteTweet_def deleteTweet_fallback_def catch_handleApiError_def Let_def
        split: sum.splits)
  have modern: "deleteTweet env tweetId this tr = (Inl (Tagged delete_unavailable), this1, tr2)"
    if "thrown_code v2Error = Num 500" "authType (config this) \<noteq> Some oauth1"
    using that body cfg
    by (simp add: deleteTweet_def deleteTweet_fallback_def catch_handleApiError_def)
  have other: "deleteTweet env tweetId this tr = (Inl (handleApiError v2Error), this1, tr2)"
    if "thrown_code v2Error \<noteq> Num 500"
    using that body
    by (simp add: deleteTweet_def deleteTweet_fallback_def catch_handleApiError_def)
  have name: "code delete_unavailable = Str ''delete_unavailable''"
    by (simp add: delete_unavailable_def)
  show ?thesis
    using trace legacy modern other name by (auto split: sum.splits)
qed


theorem delete_fallback_witness:
  "fst (deleteTweet demo_env ''42'' fresh_client []) = Inr True
   \<and> snd (snd (deleteTweet demo_env ''42'' fresh_client [])) =
       [CheckRateLimit ''tweets/delete'',
        Call_v2_deleteTweet ''42'' (Inl (JsError ''Request failed with code 500'' (Num 500) Undefined)),
        Call_v1_destroy ''42'' (Inr (Str ''42''))]
   \<and> fst (deleteTweet demo_env ''42'' fresh_oauth2_client []) = Inl (Tagged delete_unavailable)
   \<and> snd (snd (deleteTweet demo_env ''42'' fresh_oauth2_client [])) =
       [CheckRateLimit ''tweets/delete'',
        Call_v2_deleteTweet ''42'' (Inl (JsError ''Request failed with code 500'' (Num 500) Undefined))]
   \<and> fst (deleteTweet
          (demo_env\<lparr>v2_deleteTweet := \<lambda>tr tweetId. Inl (JsError ''Not Found'' (Num 404) Undefined)\<rparr>)
          ''42'' fresh_client [])
       = Inl (Tagged \<lparr>message = ''Not Found'', code = Num 404, status = Undefined\<rparr>)"
proof -
  let ?e500 = "JsError ''Request failed with code 500'' (Num 500) Undefined"
  let ?e404 = "JsError ''Not Found'' (Num 404) Undefined"
  let ?env404 = "demo_env\<lparr>v2_deleteTweet := \<lambda>tr tweetId. Inl ?e404\<rparr>"
  have "fst (await_checkRateLimit demo_env ''tweets/delete'' fresh_client []) = Inr ()"
    by code_simp
  then obtain a1 t1 where q1: "await_checkRateLimit demo_env ''tweets/delete'' fresh_client [] = (Inr (), a1, t1)"
    by (metis prod.collapse)
  have "fst (await_checkRateLimit demo_env ''tweets/delete'' fresh_oauth2_client []) = Inr ()"
    by code_simp
  then obtain a2 t2 where q2: "await_checkRateLimit demo_env ''tweets/delete'' fresh_oauth2_client [] = (Inr (), a2, t2)"
    by (metis prod.collapse)
  have "fst (await_checkRateLimit ?env404 ''tweets/delete'' fresh_client []) = Inr ()"
    by code_simp
  then obtain a3 t3 where q3: "await_checkRateLimit ?env404 ''tweets/delete'' fresh_client [] = (Inr (), a3, t3)"
    by (metis prod.collapse)
  have f1: "v2_deleteTweet demo_env t1 ''42'' = Inl ?e500"
    and f2: "v2_deleteTweet demo_env t2 ''42'' = Inl ?e500"
    and f3: "v2_deleteTweet ?env404 t3 ''42'' = Inl ?e404"
    by (simp_all add: demo_env_def)
  have s1: "authType (config fresh_client) = Some oauth1"
    and s2: "authType (config fresh_oauth2_client) = Some oauth2"
    by (simp_all add: fresh_client_def oauth1_config_def fresh_oauth2_client_def oauth2_config_def)
  have legacy: "v1_destroy demo_env tr ''42'' = Inr (Str ''42'')" for tr
    by (simp add: demo_env_def)
  from delete_fallback [OF q1 f1 refl] s1 legacy
  have A: "fst (deleteTweet demo_env ''42'' fresh_client []) = Inr True"
    "snd (snd (deleteTweet demo_env ''42'' fresh_client [])) =
       [CheckRateLimit ''tweets/delete'', Call_v2_deleteTweet ''42'' (Inl ?e500),
        Call_v1_destroy ''42'' (Inr (Str ''42''))]"
    by simp_all
  from delete_fallback [OF q2 f2 refl] s2
  have B: "fst (deleteTweet demo_env ''42'' fresh_oauth2_client []) = Inl (Tagged delete_unavailable)"
    "snd (snd (deleteTweet demo_env ''42'' fresh_oauth2_client [])) =
       [CheckRateLimit ''tweets/delete'', Call_v2_deleteTweet ''42'' (Inl ?e500)]"
    by simp_all
  from delete_fallback [OF q3 f3 refl]
  have C: "fst (deleteTweet ?env404 ''42'' fresh_client [])
       = Inl (Tagged \<lparr>message = ''Not Found'', code = Num 404, status = Undefined\<rparr>)"
    by simp
  from A B C show ?thesis by simp
qed

lemma handleApiError_tagged: "\<exists>t. handleApiError e = Tagged t"
  by (cases e) auto

lemma catch_handleApiError_exit:
  "fst (catch_handleApiError r) = Inl e \<Longrightarrow> \<exists>x. fst r = Inl x \<and> e = handleApiError x"
  by (auto simp: catch_handleApiError_def split: prod.splits sum.splits)

lemma uploadMedia_exit:
  "fst (uploadMedia env buffer mimeType this tr) = Inl e \<Longrightarrow>
   \<exists>x. fst (uploadMedia_try env buffer mimeType this tr) = Inl x \<and> e = uploadMedia_catch x"
  by (auto simp: uploadMedia_def split: prod.splits sum.splits)

lemma uploadMedia_catch_tagged: "\<exists>t. uploadMedia_catch x = Tagged t"
  using handleApiError_tagged by (auto simp: uploadMedia_catch_def)

lemma catch_handleApiError_funnel:
  "fst (catch_handleApiError r) = Inl e \<Longrightarrow>
   (\<exists>x. fst r = Inl x \<and> e = handleApiError x) \<and> (\<exists>t. e = Tagged t)"
  using catch_handleApiError_exit [of r e] handleApiError_tagged by metis

text \<open>
  C7, as the code has it. \<open>handleApiError\<close> rethrows a \<open>TwitterError\<close> unchanged, wraps an
  exception with a truthy \<open>code\<close> into a \<open>TwitterError\<close> with that code and status, and wraps
  any other exception into the error with code \<open>internal_error\<close> and status 500. Every
  failure of \<open>postTweet\<close>, \<open>postTweetWithMedia\<close>, \<open>searchTweets\<close>, \<open>getTweet\<close> and
  \<open>deleteTweet\<close> is what \<open>handleApiError\<close> makes of the exception raised in the body of the
  method. \<open>uploadMedia\<close> does the same unless the message of that exception contains
  \<open>scope\<close> or \<open>403\<close>: then it throws the \<open>TwitterError\<close> with code \<open>media_upload_forbidden\<close>
  in its place, also when the exception is a \<open>TwitterError\<close> already. In every case what the
  caller receives is a \<open>TwitterError\<close>.
\<close>

theorem single_error_exit:
  "handleApiError (Tagged t) = Tagged t
   \<and> (truthy c \<longrightarrow>
        handleApiError (JsError m c s) =
          Tagged \<lparr>message = (if m \<noteq> [] then m else ''Twitter API error''), code = c, status = s\<rparr>)
   \<and> (\<not> truthy c \<longrightarrow>
        handleApiError (JsError m c s) =
          Tagged \<lparr>message = ''An unexpected error occurred'', code = Str ''internal_error'',
                  status = Num 500\<rparr>)
   \<and> (\<forall>e. fst (postTweet env content replyTo this tr) = Inl e \<longrightarrow>
          (\<exists>x. fst (postTweet_try env content replyTo this tr) = Inl x \<and> e = handleApiError x)
          \<and> (\<exists>t. e = Tagged t))
   \<and> (\<forall>e. fst (postTweetWithMedia env content replyTo mediaItems this tr) = Inl e \<longrightarrow>
          (\<exists>x. fst (postTweetWithMedia_try env content replyTo mediaItems this tr) = Inl x
               \<and> e = handleApiError x)
          \<and> (\<exists>t. e = Tagged t))
   \<and> (\<forall>e. fst (searchTweets env query n this tr) = Inl e \<longrightarrow>
          (\<exists>x. fst (searchTweets_try env query n this tr) = Inl x \<and> e = handleApiError x)
          \<and> (\<exists>t. e = Tagged t))
   \<and> (\<forall>e. fst (getTweet env tweetId this tr) = Inl e \<longrightarrow>
          (\<exists>x. fst (getTweet_try env tweetId this tr) = Inl x \<and> e = handleApiError x)
          \<and> (\<exists>t. e = Tagged t))
   \<and> (\<forall>e. fst (deleteTweet env tweetId this tr) = Inl e \<longrightarrow>
          (\<exists>x. fst (deleteTweet_try env tweetId this tr) = Inl x \<and> e = handleApiError x)
          \<and> (\<exists>t. e = Tagged t))
   \<and> (\<forall>e. fst (uploadMedia env buffer mimeType this tr) = Inl e \<longrightarrow>
          (\<exists>x. fst (uploadMedia_try env buffer mimeType this tr) = Inl x
               \<and> e = (if str_includes (thrown_message x) ''scope''
                          \<or> str_includes (thrown_message x) ''403''
                       then Tagged media_upload_forbidden
                       else handleApiError x))
          \<and> (\<exists>t. e = Tagged t))"
proof -
  have p1: "\<forall>e. fst (postTweet env content replyTo this tr) = Inl e \<longrightarrow>
          (\<exists>x. fst (postTweet_try env content replyTo this tr) = Inl x \<and> e = handleApiError x)
          \<and> (\<exists>t. e = Tagged t)"
    unfolding postTweet_def using catch_handleApiError_funnel by blast
  have p2: "\<forall>e. fst (postTweetWithMedia env content replyTo mediaItems this tr) = Inl e \<longrightarrow>
          (\<exists>x. fst (postTweetWithMedia_try env content replyTo mediaItems this tr) = Inl x
               \<and> e = handleApiError x)
          \<and> (\<exists>t. e = Tagged t)"
    unfolding postTweetWithMedia_def using catch_handleApiError_funnel by blast
  have p3: "\<forall>e. fst (searchTweets env query n this tr) = Inl e \<longrightarrow>
          (\<exists>x. fst (searchTweets_try env query n this tr) = Inl x \<and> e = handleApiError x)
          \<and> (\<exists>t. e = Tagged t)"
    unfolding searchTweets_def using catch_handleApiError_funnel by blast
  have p4: "\<forall>e. fst (getTweet env tweetId this tr) = Inl e \<longrightarrow>
          (\<exists>x. fst (getTweet_try env tweetId this tr) = Inl x \<and> e = handleApiError x)
          \<and> (\<exists>t. e = Tagged t)"
    unfolding getTweet_def using catch_handleApiError_funnel by blast
  have p5: "\<forall>e. fst (deleteTweet env tweetId this tr) = Inl e \<longrightarrow>
          (\<exists>x. fst (deleteTweet_try env tweetId this tr) = Inl x \<and> e = handleApiError x)
          \<and> (\<exists>t. e = Tagged t)"
    unfolding deleteTweet_def using catch_handleApiError_funnel by blast
  have p6: "\<forall>e. fst (uploadMedia env buffer mimeType this tr) = Inl e \<longrightarrow>
          (\<exists>x. fst (uploadMedia_try env buffer mimeType this tr) = Inl x
               \<and> e = (if str_includes (thrown_message x) ''scope''
                          \<or> str_includes (thrown_message x) ''403''
                       then Tagged media_upload_forbidden
                       else handleApiError x))
          \<and> (\<exists>t. e = Tagged t)"
    using uploadMedia_exit uploadMedia_catch_tagged by (metis uploadMedia_catch_def)
  have h: "handleApiError (Tagged t) = Tagged t"
    "truthy c \<longrightarrow>
        handleApiError (JsError m c s) =
          Tagged \<lparr>message = (if m \<noteq> [] then m else ''Twitter API error''), code = c, status = s\<rparr>"
    "\<not> truthy c \<longrightarrow>
        handleApiError (JsError m c s) =
          Tagged \<lparr>message = ''An unexpected error occurred'', code = Str ''internal_error'',
                  status = Num 500\<rparr>"
    by (simp_all add: internal_error_def)
  show ?thesis
    using h p1 p2 p3 p4 p5 p6 by blast
qed


theorem single_error_exit_witness:
  "handleApiError (JsError ''Too Many Requests'' (Num 429) Undefined)
     = Tagged \<lparr>message = ''Too Many Requests'', code = Num 429, status = Undefined\<rparr>
   \<and> handleApiError hang_up = Tagged internal_error
   \<and> fst (postTweet failing_env ''Hello world!'' None fresh_client []) = Inl (handleApiError hang_up)
   \<and> fst (postTweetWithMedia failing_env ''Hello world!'' None None fresh_client [])
       = Inl (handleApiError hang_up)
   \<and> fst (searchTweets failing_env ''isabelle'' 10 fresh_client []) = Inl (handleApiError hang_up)
   \<and> fst (getTweet failing_env ''42'' fresh_client []) = Inl (handleApiError hang_up)
   \<and> fst (deleteTweet failing_env ''42'' fresh_client []) = Inl (handleApiError hang_up)
   \<and> fst (uploadMedia failing_env [1, 2, 3] ''image/png'' fresh_client [])
       = Inl (handleApiError hang_up)"
proof -
  note funnel = single_error_exit [where env = failing_env and this = fresh_client and tr = "[]"
      and content = "''Hello world!''" and replyTo = None and mediaItems = None
      and query = "''isabelle''" and n = 10 and tweetId = "''42''"
      and buffer = "[1, 2, 3]" and mimeType = "''image/png''"
      and m = "''Too Many Requests''" and c = "Num 429" and s = Undefined]
  note funnel' = single_error_exit [where m = "''socket hang up''" and c = Undefined and s = Undefined]
  have wrapped: "handleApiError (JsError ''Too Many Requests'' (Num 429) Undefined)
     = Tagged \<lparr>message = ''Too Many Requests'', code = Num 429, status = Undefined\<rparr>"
    using funnel by simp
  have generic: "handleApiError hang_up = Tagged internal_error"
    using funnel' by (simp add: hang_up_def internal_error_def)
  have t1: "fst (postTweet_try failing_env ''Hello world!'' None fresh_client []) = Inl hang_up"
    and t2: "fst (postTweetWithMedia_try failing_env ''Hello world!'' None None fresh_client [])
       = Inl hang_up"
    and t3: "fst (searchTweets_try failing_env ''isabelle'' 10 fresh_client []) = Inl hang_up"
    and t4: "fst (getTweet_try failing_env ''42'' fresh_client []) = Inl hang_up"
    and t5: "fst (deleteTweet_try failing_env ''42'' fresh_client []) = Inl hang_up"
    by code_simp+
  have t6: "fst (uploadMedia_try failing_env [1, 2, 3] ''image/png'' fresh_client []) = Inl hang_up"
    by (simp add: run_defs failing_env_def demo_env_def fresh_client_def oauth1_config_def)
  have plain: "\<not> (str_includes (thrown_message hang_up) ''scope''
                  \<or> str_includes (thrown_message hang_up) ''403'')"
    by code_simp
  have f1: "\<exists>e. fst (postTweet failing_env ''Hello world!'' None fresh_client []) = Inl e"
    and f2: "\<exists>e. fst (postTweetWithMedia failing_env ''Hello world!'' None None fresh_client []) = Inl e"
    and f3: "\<exists>e. fst (searchTweets failing_env ''isabelle'' 10 fresh_client []) = Inl e"
    and f4: "\<exists>e. fst (getTweet failing_env ''42'' fresh_client []) = Inl e"
    and f5: "\<exists>e. fst (deleteTweet failing_env ''42'' fresh_client []) = Inl e"
    using t1 t2 t3 t4 t5
    by (auto simp: postTweet_def postTweetWithMedia_def searchTweets_def getTweet_def
        deleteTweet_def catch_handleApiError_def split: prod.splits sum.splits)
  have f6: "\<exists>e. fst (uploadMedia failing_env [1, 2, 3] ''image/png'' fresh_client []) = Inl e"
    using t6 by (auto simp: uploadMedia_def split: prod.splits sum.splits)
  have r1: "fst (postTweet failing_env ''Hello world!'' None fresh_client []) = Inl (handleApiError hang_up)"
    using funnel f1 t1 by auto
  have r2: "fst (postTweetWithMedia failing_env ''Hello world!'' None None fresh_client [])
       = Inl (handleApiError hang_up)"
    using funnel f2 t2 by auto
  have r3: "fst (searchTweets failing_env ''isabelle'' 10 fresh_client []) = Inl (handleApiError hang_up)"
    using funnel f3 t3 by auto
  have r4: "fst (getTweet failing_env ''42'' fresh_client []) = Inl (handleApiError hang_up)"
    using funnel f4 t4 by auto
  have r5: "fst (deleteTweet failing_env ''42'' fresh_client []) = Inl (handleApiError hang_up)"
    using funnel f5 t5 by auto
  have r6: "fst (uploadMedia failing_env [1, 2, 3] ''image/png'' fresh_client [])
       = Inl (handleApiError hang_up)"
    using funnel f6 t6 plain by auto
  from wrapped generic r1 r2 r3 r4 r5 r6 show ?thesis by simp
qed

text \<open>
  A failure of the public method \<open>uploadMedia\<close> that does not leave through
  \<open>handleApiError\<close>: the v2 uploader throws a \<open>TwitterError\<close> with code \<open>media_upload_failed\<close>,
  and the caller receives another one.
\<close>

theorem single_error_exit_counterexample:
  "fst (uploadMedia_try forbidden_env [1, 2, 3] ''image/png'' fresh_oauth2_client [])
     = Inl (Tagged (media_upload_failed ''Upload failed: 403 Forbidden''))
   \<and> fst (uploadMedia forbidden_env [1, 2, 3] ''image/png'' fresh_oauth2_client [])
     = Inl (Tagged media_upload_forbidden)
   \<and> handleApiError (Tagged (media_upload_failed ''Upload failed: 403 Forbidden''))
     \<noteq> Tagged media_upload_forbidden"
  by (simp add: run_defs forbidden_env_def demo_env_def fresh_oauth2_client_def oauth2_config_def
      media_upload_failed_def media_upload_forbidden_def)

section \<open>Properties of the credential refresher\<close>

lemma truthy_str_iff: "truthy_str x \<longleftrightarrow> (\<exists>s. x = Some s \<and> s \<noteq> [])"
  by (cases x) auto

lemma shouldRefreshToken_iff:
  "shouldRefreshToken env this \<longleftrightarrow>
     truthy_str (oauth2RefreshToken (handler_config this))
     \<and> (\<exists>t. tokenExpiresAt this = Some (Some t) \<and> t - now_at_check env < 5 * 60 * 1000)"
  by (auto simp: shouldRefreshToken_def split: option.splits)

lemma getClient_no_refresh:
  assumes "\<not> shouldRefreshToken env this"
  shows "snd (snd (getClient env this tr)) = tr
       \<and> handler_config (fst (snd (getClient env this tr))) = handler_config this
       \<and> tokenExpiresAt (fst (snd (getClient env this tr))) = tokenExpiresAt this"
  using assms by (auto simp: getClient_def split: option.splits)

lemma getClient_refresh_fails:
  assumes "shouldRefreshToken env this" "refreshAccessToken env this tr = (Inl e, s)"
  shows "getClient env this tr = (Inl e, s)"
  using assms by (cases s) (simp add: getClient_def)

lemma refresh_without_client:
  assumes "\<not> truthy_str (oauth2ClientId (handler_config this))
           \<or> \<not> truthy_str (oauth2ClientSecret (handler_config this))"
    and "truthy_str (oauth2RefreshToken (handler_config this))"
  shows "refreshAccessToken env this tr =
           (Inl ''Client ID and secret required for token refresh'', this, tr)"
  using assms by (auto simp: refreshAccessToken_def truthy_str_iff split: option.splits)

lemma refresh_with_client:
  assumes "oauth2ClientId (handler_config this) = Some clientId" "clientId \<noteq> []"
    and "oauth2ClientSecret (handler_config this) = Some clientSecret" "clientSecret \<noteq> []"
    and "oauth2RefreshToken (handler_config this) = Some refreshToken" "refreshToken \<noteq> []"
    and "response = fetch_token env tr clientId clientSecret refreshToken"
    and "tr1 = tr @ [Call_fetch_token clientId clientSecret refreshToken response]"
  shows "(\<forall>m. response = Token_rejected m \<longrightarrow>
            refreshAccessToken env this tr = (Inl (refresh_failed m), this, tr1))
    \<and> (\<forall>body json. response = Token_response False body json \<longrightarrow>
            refreshAccessToken env this tr =
              (Inl (refresh_failed (''Token refresh failed: '' @ body)), this, tr1))
    \<and> (\<exists>r this1 rest. refreshAccessToken env this tr = (r, this1, tr1 @ rest)
            \<and> (\<forall>ev \<in> set rest. \<exists>tokens. ev = Update_env_file tokens))"
  using assms
  by (auto simp: refreshAccessToken_def nullish_def Let_def
      split: option.splits token_fetch.splits sum.splits)

lemma refresh_answered:
  assumes "oauth2ClientId (handler_config this) = Some clientId" "clientId \<noteq> []"
    and "oauth2ClientSecret (handler_config this) = Some clientSecret" "clientSecret \<noteq> []"
    and "oauth2RefreshToken (handler_config this) = Some refreshToken" "refreshToken \<noteq> []"
    and "fetch_token env tr clientId clientSecret refreshToken = Token_response True body json"
    and "tr1 = tr @ [Call_fetch_token clientId clientSecret refreshToken
                       (Token_response True body json)]"
    and "renewed = (handler_config this)
           \<lparr>oauth2AccessToken := access_token tokens,
            oauth2RefreshToken := (if truthy_str (refresh_token tokens)
                                   then refresh_token tokens else Some refreshToken)\<rparr>"
  shows "json = Inl m \<Longrightarrow>
           refreshAccessToken env this tr = (Inl (refresh_failed m), this, tr1)"
    and "json = Inr tokens \<Longrightarrow> expires_in tokens = Some secs \<Longrightarrow>
         \<bar>now_at_refresh env + secs * 1000\<bar> \<le> 8640000000000000 \<Longrightarrow>
           refreshAccessToken env this tr =
             (Inr (),
              this\<lparr>handler_config :=
                     renewed\<lparr>oauth2TokenExpiresAt :=
                               Some (toISOString env (now_at_refresh env + secs * 1000))\<rparr>,
                   handler_client := Some (new_TwitterApi (access_token tokens)),
                   tokenExpiresAt := Some (Some (now_at_refresh env + secs * 1000))\<rparr>,
              tr1 @ [Update_env_file tokens])"
    and "json = Inr tokens \<Longrightarrow>
         expires_in tokens = None
         \<or> (\<exists>secs. expires_in tokens = Some secs
                \<and> 8640000000000000 < \<bar>now_at_refresh env + secs * 1000\<bar>) \<Longrightarrow>
           refreshAccessToken env this tr =
             (Inl (refresh_failed ''Invalid time value''),
              this\<lparr>handler_config := renewed, tokenExpiresAt := Some None\<rparr>,
              tr1)"
  using assms
  by (auto simp: refreshAccessToken_def nullish_def Let_def new_Date_of_def truthy_str_iff
      split: option.splits)

lemma getClient_refreshed:
  assumes "shouldRefreshToken env this"
    and "refreshAccessToken env this tr = (Inr (), this1, tr1)"
    and "handler_client this1 = Some c"
  shows "getClient env this tr = (Inr c, this1, tr1)"
  using assms by (simp add: getClient_def)


lemma getClient_answered:
  assumes should: "shouldRefreshToken env this"
    and c: "oauth2ClientId (handler_config this) = Some clientId" "clientId \<noteq> []"
      "oauth2ClientSecret (handler_config this) = Some clientSecret" "clientSecret \<noteq> []"
      "oauth2RefreshToken (handler_config this) = Some refreshToken"
    and r: "fetch_token env tr clientId clientSecret refreshToken = Token_response True body json"
  shows "json = Inl m \<Longrightarrow>
           getClient env this tr =
             (Inl (''Failed to refresh OAuth 2.0 token: '' @ m), this,
              tr @ [Call_fetch_token clientId clientSecret refreshToken
                      (Token_response True body json)])"
    and "json = Inr tokens \<Longrightarrow> expires_in tokens = Some secs \<Longrightarrow>
         \<bar>now_at_refresh env + secs * 1000\<bar> \<le> 8640000000000000 \<Longrightarrow>
           getClient env this tr =
             (Inr (new_TwitterApi (access_token tokens)),
              this\<lparr>handler_config :=
                     (handler_config this)
                       \<lparr>oauth2AccessToken := access_token tokens,
                        oauth2RefreshToken :=
                          (if truthy_str (refresh_token tokens)
                           then refresh_token tokens else Some refreshToken),
                        oauth2TokenExpiresAt :=
                          Some (toISOString env (now_at_refresh env + secs * 1000))\<rparr>,
                   handler_client := Some (new_TwitterApi (access_token tokens)),
                   tokenExpiresAt := Some (Some (now_at_refresh env + secs * 1000))\<rparr>,
              tr @ [Call_fetch_token clientId clientSecret refreshToken
                      (Token_response True body json),
                    Update_env_file tokens])"
    and "json = Inr tokens \<Longrightarrow>
         expires_in tokens = None
         \<or> (\<exists>secs. expires_in tokens = Some secs
                \<and> 8640000000000000 < \<bar>now_at_refresh env + secs * 1000\<bar>) \<Longrightarrow>
           getClient env this tr =
             (Inl ''Failed to refresh OAuth 2.0 token: Invalid time value'',
              this\<lparr>handler_config :=
                     (handler_config this)
                       \<lparr>oauth2AccessToken := access_token tokens,
                        oauth2RefreshToken :=
                          (if truthy_str (refresh_token tokens)
                           then refresh_token tokens else Some refreshToken)\<rparr>,
                   tokenExpiresAt := Some None\<rparr>,
              tr @ [Call_fetch_token clientId clientSecret refreshToken
                      (Token_response True body json)])"
proof -
  have nonempty: "refreshToken \<noteq> []"
    using should c(5) by (simp add: shouldRefreshToken_iff truthy_str_iff)
  note A = refresh_answered [OF c(1-5) nonempty r refl refl]
  show "getClient env this tr =
             (Inl (''Failed to refresh OAuth 2.0 token: '' @ m), this,
              tr @ [Call_fetch_token clientId clientSecret refreshToken
                      (Token_response True body json)])"
    if "json = Inl m"
    using getClient_refresh_fails [OF should A(1) [OF that]] by (simp add: refresh_failed_def)
  show "getClient env this tr =
             (Inr (new_TwitterApi (access_token tokens)),
              this\<lparr>handler_config :=
                     (handler_config this)
                       \<lparr>oauth2AccessToken := access_token tokens,
                        oauth2RefreshToken :=
                          (if truthy_str (refresh_token tokens)
                           then refresh_token tokens else Some refreshToken),
                        oauth2TokenExpiresAt :=
                          Some (toISOString env (now_at_refresh env + secs * 1000))\<rparr>,
                   handler_client := Some (new_TwitterApi (access_token tokens)),
                   tokenExpiresAt := Some (Some (now_at_refresh env + secs * 1000))\<rparr>,
              tr @ [Call_fetch_token clientId clientSecret refreshToken
                      (Token_response True body json),
                    Update_env_file tokens])"
    if "json = Inr tokens" "expires_in tokens = Some secs"
      "\<bar>now_at_refresh env + secs * 1000\<bar> \<le> 8640000000000000"
    using getClient_refreshed [OF should A(2) [OF that]] by simp
  show "getClient env this tr =
             (Inl ''Failed to refresh OAuth 2.0 token: Invalid time value'',
              this\<lparr>handler_config :=
                     (handler_config this)
                       \<lparr>oauth2AccessToken := access_token tokens,
                        oauth2RefreshToken :=
                          (if truthy_str (refresh_token tokens)
                           then refresh_token tokens else Some refreshToken)\<rparr>,
                   tokenExpiresAt := Some None\<rparr>,
              tr @ [Call_fetch_token clientId clientSecret refreshToken
                      (Token_response True body json)])"
    if "json = Inr tokens"
      "expires_in tokens = None
         \<or> (\<exists>secs. expires_in tokens = Some secs
                \<and> 8640000000000000 < \<bar>now_at_refresh env + secs * 1000\<bar>)"
    using getClient_refresh_fails [OF should A(3) [OF that]] by (simp add: refresh_failed_def)
qed


text \<open>
  C9. \<open>shouldRefreshToken\<close> holds exactly when the refresh token is a non-empty string and
  the recorded expiry is a valid date less than 5 minutes after the clock reading. When it
  does not hold, \<open>getClient\<close> makes no request and leaves configuration and expiry alone.
  When it holds and the client id or the client secret is missing, \<open>getClient\<close> throws
  before any request. When it holds and both are present, \<open>getClient\<close> sends exactly one
  request to the token endpoint, with the client id, the client secret and the refresh
  token of the configuration. If the request is rejected, answered with a response that is
  not \<open>ok\<close>, or answered \<open>ok\<close> with a body that is no JSON, \<open>getClient\<close> throws the error of
  the refresh and the handler is unchanged. If the answer is \<open>ok\<close> and its \<open>expires_in\<close>
  seconds after the clock reading of the refresh is a valid date, \<open>getClient\<close> returns the
  handle made from the access token of the answer, and the handler holds that handle, that
  access token, the refresh token of the answer if it has one and the old one otherwise,
  and the new expiry, as a date and as the string of \<open>toISOString\<close>; the trace is the
  request and then the rewriting of the \<open>.env\<close> file. If the answer is \<open>ok\<close> and gives no
  valid date, \<open>getClient\<close> throws after the request, the handler having taken the tokens of
  the answer and an invalid expiry, with the handle it had.
\<close>

theorem token_refresh:
  "(shouldRefreshToken env this \<longleftrightarrow>
      truthy_str (oauth2RefreshToken (handler_config this))
      \<and> (\<exists>t. tokenExpiresAt this = Some (Some t) \<and> t - now_at_check env < 5 * 60 * 1000))
   \<and> (\<not> shouldRefreshToken env this \<longrightarrow>
        snd (snd (getClient env this tr)) = tr
        \<and> handler_config (fst (snd (getClient env this tr))) = handler_config this
        \<and> tokenExpiresAt (fst (snd (getClient env this tr))) = tokenExpiresAt this)
   \<and> (shouldRefreshToken env this
        \<and> (\<not> truthy_str (oauth2ClientId (handler_config this))
           \<or> \<not> truthy_str (oauth2ClientSecret (handler_config this))) \<longrightarrow>
        getClient env this tr =
          (Inl ''Client ID and secret required for token refresh'', this, tr))
   \<and> (\<forall>clientId clientSecret refreshToken response.
        shouldRefreshToken env this
        \<and> oauth2ClientId (handler_config this) = Some clientId \<and> clientId \<noteq> []
        \<and> oauth2ClientSecret (handler_config this) = Some clientSecret \<and> clientSecret \<noteq> []
        \<and> oauth2RefreshToken (handler_config this) = Some refreshToken
        \<and> response = fetch_token env tr clientId clientSecret refreshToken \<longrightarrow>
        (\<forall>m. response = Token_rejected m \<longrightarrow>
           getClient env this tr =
             (Inl (''Failed to refresh OAuth 2.0 token: '' @ m), this,
              tr @ [Call_fetch_token clientId clientSecret refreshToken response]))
        \<and> (\<forall>body json. response = Token_response False body json \<longrightarrow>
           getClient env this tr =
             (Inl (''Failed to refresh OAuth 2.0 token: Token refresh failed: '' @ body), this,
              tr @ [Call_fetch_token clientId clientSecret refreshToken response]))
        \<and> (\<forall>body m. response = Token_response True body (Inl m) \<longrightarrow>
           getClient env this tr =
             (Inl (''Failed to refresh OAuth 2.0 token: '' @ m), this,
              tr @ [Call_fetch_token clientId clientSecret refreshToken response]))
        \<and> (\<forall>body tokens secs.
             response = Token_response True body (Inr tokens)
             \<and> expires_in tokens = Some secs
             \<and> \<bar>now_at_refresh env + secs * 1000\<bar> \<le> 8640000000000000 \<longrightarrow>
           getClient env this tr =
             (Inr (new_TwitterApi (access_token tokens)),
              this\<lparr>handler_config :=
                     (handler_config this)
                       \<lparr>oauth2AccessToken := access_token tokens,
                        oauth2RefreshToken :=
                          (if truthy_str (refresh_token tokens)
                           then refresh_token tokens else Some refreshToken),
                        oauth2TokenExpiresAt :=
                          Some (toISOString env (now_at_refresh env + secs * 1000))\<rparr>,
                   handler_client := Some (new_TwitterApi (access_token tokens)),
                   tokenExpiresAt := Some (Some (now_at_refresh env + secs * 1000))\<rparr>,
              tr @ [Call_fetch_token clientId clientSecret refreshToken response,
                    Update_env_file tokens]))
        \<and> (\<forall>body tokens.
             response = Token_response True body (Inr tokens)
             \<and> (expires_in tokens = None
                \<or> (\<exists>secs. expires_in tokens = Some secs
                       \<and> 8640000000000000 < \<bar>now_at_refresh env + secs * 1000\<bar>)) \<longrightarrow>
           getClient env this tr =
             (Inl ''Failed to refresh OAuth 2.0 token: Invalid time value'',
              this\<lparr>handler_config :=
                     (handler_config this)
                       \<lparr>oauth2AccessToken := access_token tokens,
                        oauth2RefreshToken :=
                          (if truthy_str (refresh_token tokens)
                           then refresh_token tokens else Some refreshToken)\<rparr>,
                   tokenExpiresAt := Some None\<rparr>,
              tr @ [Call_fetch_token clientId clientSecret refreshToken response]))
        \<and> (\<exists>rest. snd (snd (getClient env this tr)) =
               tr @ [Call_fetch_token clientId clientSecret refreshToken response] @ rest
             \<and> (\<forall>ev \<in> set rest. \<exists>tokens. ev = Update_env_file tokens)))"
proof -
  have no_client: "shouldRefreshToken env this
        \<and> (\<not> truthy_str (oauth2ClientId (handler_config this))
           \<or> \<not> truthy_str (oauth2ClientSecret (handler_config this))) \<longrightarrow>
        getClient env this tr =
          (Inl ''Client ID and secret required for token refresh'', this, tr)"
    using refresh_without_client [of this env tr] getClient_refresh_fails [of env this tr]
    by (simp add: shouldRefreshToken_iff)
  have not_due: "\<not> shouldRefreshToken env this \<longrightarrow>
        snd (snd (getClient env this tr)) = tr
        \<and> handler_config (fst (snd (getClient env this tr))) = handler_config this
        \<and> tokenExpiresAt (fst (snd (getClient env this tr))) = tokenExpiresAt this"
    using getClient_no_refresh [of env this tr] by blast
  have attempt: "(\<forall>clientId clientSecret refreshToken response.
        shouldRefreshToken env this
        \<and> oauth2ClientId (handler_config this) = Some clientId \<and> clientId \<noteq> []
        \<and> oauth2ClientSecret (handler_config this) = Some clientSecret \<and> clientSecret \<noteq> []
        \<and> oauth2RefreshToken (handler_config this) = Some refreshToken
        \<and> response = fetch_token env tr clientId clientSecret refreshToken \<longrightarrow>
        (\<forall>m. response = Token_rejected m \<longrightarrow>
           getClient env this tr =
             (Inl (''Failed to refresh OAuth 2.0 token: '' @ m), this,
              tr @ [Call_fetch_token clientId clientSecret refreshToken response]))
        \<and> (\<forall>body json. response = Token_response False body json \<longrightarrow>
           getClient env this tr =
             (Inl (''Failed to refresh OAuth 2.0 token: Token refresh failed: '' @ body), this,
              tr @ [Call_fetch_token clientId clientSecret refreshToken response]))
        \<and> (\<forall>body m. response = Token_response True body (Inl m) \<longrightarrow>
           getClient env this tr =
             (Inl (''Failed to refresh OAuth 2.0 token: '' @ m), this,
              tr @ [Call_fetch_token clientId clientSecret refreshToken response]))
        \<and> (\<forall>body tokens secs.
             response = Token_response True body (Inr tokens)
             \<and> expires_in tokens = Some secs
             \<and> \<bar>now_at_refresh env + secs * 1000\<bar> \<le> 8640000000000000 \<longrightarrow>
           getClient env this tr =
             (Inr (new_TwitterApi (access_token tokens)),
              this\<lparr>handler_config :=
                     (handler_config this)
                       \<lparr>oauth2AccessToken := access_token tokens,
                        oauth2RefreshToken :=
                          (if truthy_str (refresh_token tokens)
                           then refresh_token tokens else Some refreshToken),
                        oauth2TokenExpiresAt :=
                          Some (toISOString env (now_at_refresh env + secs * 1000))\<rparr>,
                   handler_client := Some (new_TwitterApi (access_token tokens)),
                   tokenExpiresAt := Some (Some (now_at_refresh env + secs * 1000))\<rparr>,
              tr @ [Call_fetch_token clientId clientSecret refreshToken response,
                    Update_env_file tokens]))
        \<and> (\<forall>body tokens.
             response = Token_response True body (Inr tokens)
             \<and> (expires_in tokens = None
                \<or> (\<exists>secs. expires_in tokens = Some secs
                       \<and> 8640000000000000 < \<bar>now_at_refresh env + secs * 1000\<bar>)) \<longrightarrow>
           getClient env this tr =
             (Inl ''Failed to refresh OAuth 2.0 token: Invalid time value'',
              this\<lparr>handler_config :=
                     (handler_config this)
                       \<lparr>oauth2AccessToken := access_token tokens,
                        oauth2RefreshToken :=
                          (if truthy_str (refresh_token tokens)
                           then refresh_token tokens else Some refreshToken)\<rparr>,
                   tokenExpiresAt := Some None\<rparr>,
              tr @ [Call_fetch_token clientId clientSecret refreshToken response]))
        \<and> (\<exists>rest. snd (snd (getClient env this tr)) =
               tr @ [Call_fetch_token clientId clientSecret refreshToken response] @ rest
             \<and> (\<forall>ev \<in> set rest. \<exists>tokens. ev = Update_env_file tokens)))"
  proof (intro allI impI, elim conjE, goal_cases)
    case (1 clientId clientSecret refreshToken response)
    note should = 1(1) and c = 1(2-6) and r = 1(7)
    have nonempty: "refreshToken \<noteq> []"
      using should c(5) by (simp add: shouldRefreshToken_iff truthy_str_iff)
    note R = refresh_with_client [OF c(1-5) nonempty r refl]
    from R obtain res this1 rest where run: "refreshAccessToken env this tr =
          (res, this1, (tr @ [Call_fetch_token clientId clientSecret refreshToken response]) @ rest)"
      and upd: "\<forall>ev \<in> set rest. \<exists>tokens. ev = Update_env_file tokens"
      by blast
    have "snd (snd (getClient env this tr)) =
        tr @ [Call_fetch_token clientId clientSecret refreshToken response] @ rest"
      using should run by (auto simp: getClient_def split: sum.splits option.splits)
    with upd have one: "\<exists>rest. snd (snd (getClient env this tr)) =
               tr @ [Call_fetch_token clientId clientSecret refreshToken response] @ rest
             \<and> (\<forall>ev \<in> set rest. \<exists>tokens. ev = Update_env_file tokens)"
      by blast
    have rejected: "\<forall>m. response = Token_rejected m \<longrightarrow>
           getClient env this tr =
             (Inl (''Failed to refresh OAuth 2.0 token: '' @ m), this,
              tr @ [Call_fetch_token clientId clientSecret refreshToken response])"
      using R getClient_refresh_fails [OF should] by (auto simp: refresh_failed_def)
    have not_ok: "\<forall>body json. response = Token_response False body json \<longrightarrow>
           getClient env this tr =
             (Inl (''Failed to refresh OAuth 2.0 token: Token refresh failed: '' @ body), this,
              tr @ [Call_fetch_token clientId clientSecret refreshToken response])"
      using R getClient_refresh_fails [OF should] by (auto simp: refresh_failed_def)
    have no_json: "\<forall>body m. response = Token_response True body (Inl m) \<longrightarrow>
           getClient env this tr =
             (Inl (''Failed to refresh OAuth 2.0 token: '' @ m), this,
              tr @ [Call_fetch_token clientId clientSecret refreshToken response])"
    proof (intro allI impI)
      fix body m
      assume a: "response = Token_response True body (Inl m)"
      with r have "fetch_token env tr clientId clientSecret refreshToken =
          Token_response True body (Inl m)"
        by simp
      from getClient_answered(1) [OF should c this refl]
      show "getClient env this tr =
             (Inl (''Failed to refresh OAuth 2.0 token: '' @ m), this,
              tr @ [Call_fetch_token clientId clientSecret refreshToken response])"
        unfolding a .
    qed
    have granted: "\<forall>body tokens secs.
             response = Token_response True body (Inr tokens)
             \<and> expires_in tokens = Some secs
             \<and> \<bar>now_at_refresh env + secs * 1000\<bar> \<le> 8640000000000000 \<longrightarrow>
           getClient env this tr =
             (Inr (new_TwitterApi (access_token tokens)),
              this\<lparr>handler_config :=
                     (handler_config this)
                       \<lparr>oauth2AccessToken := access_token tokens,
                        oauth2RefreshToken :=
                          (if truthy_str (refresh_token tokens)
                           then refresh_token tokens else Some refreshToken),
                        oauth2TokenExpiresAt :=
                          Some (toISOString env (now_at_refresh env + secs * 1000))\<rparr>,
                   handler_client := Some (new_TwitterApi (access_token tokens)),
                   tokenExpiresAt := Some (Some (now_at_refresh env + secs * 1000))\<rparr>,
              tr @ [Call_fetch_token clientId clientSecret refreshToken response,
                    Update_env_file tokens])"
    proof (intro allI impI, elim conjE)
      fix body tokens secs
      assume a: "response = Token_response True body (Inr tokens)"
        and e: "expires_in tokens = Some secs"
        "\<bar>now_at_refresh env + secs * 1000\<bar> \<le> 8640000000000000"
      from r a have "fetch_token env tr clientId clientSecret refreshToken =
          Token_response True body (Inr tokens)"
        by simp
      from getClient_answered(2) [OF should c this refl e]
      show "getClient env this tr =
             (Inr (new_TwitterApi (access_token tokens)),
              this\<lparr>handler_config :=
                     (handler_config this)
                       \<lparr>oauth2AccessToken := access_token tokens,
                        oauth2RefreshToken :=
                          (if truthy_str (refresh_token tokens)
                           then refresh_token tokens else Some refreshToken),
                        oauth2TokenExpiresAt :=
                          Some (toISOString env (now_at_refresh env + secs * 1000))\<rparr>,
                   handler_client := Some (new_TwitterApi (access_token tokens)),
                   tokenExpiresAt := Some (Some (now_at_refresh env + secs * 1000))\<rparr>,
              tr @ [Call_fetch_token clientId clientSecret refreshToken response,
                    Update_env_file tokens])"
        unfolding a .
    qed
    have no_date: "\<forall>body tokens.
             response = Token_response True body (Inr tokens)
             \<and> (expires_in tokens = None
                \<or> (\<exists>secs. expires_in tokens = Some secs
                       \<and> 8640000000000000 < \<bar>now_at_refresh env + secs * 1000\<bar>)) \<longrightarrow>
           getClient env this tr =
             (Inl ''Failed to refresh OAuth 2.0 token: Invalid time value'',
              this\<lparr>handler_config :=
                     (handler_config this)
                       \<lparr>oauth2AccessToken := access_token tokens,
                        oauth2RefreshToken :=
                          (if truthy_str (refresh_token tokens)
                           then refresh_token tokens else Some refreshToken)\<rparr>,
                   tokenExpiresAt := Some None\<rparr>,
              tr @ [Call_fetch_token clientId clientSecret refreshToken response])"
    proof (intro allI impI, elim conjE)
      fix body tokens
      assume a: "response = Token_response True body (Inr tokens)"
        and e: "expires_in tokens = None
                \<or> (\<exists>secs. expires_in tokens = Some secs
                       \<and> 8640000000000000 < \<bar>now_at_refresh env + secs * 1000\<bar>)"
      from r a have "fetch_token env tr clientId clientSecret refreshToken =
          Token_response True body (Inr tokens)"
        by simp
      from getClient_answered(3) [OF should c this refl e]
      show "getClient env this tr =
             (Inl ''Failed to refresh OAuth 2.0 token: Invalid time value'',
              this\<lparr>handler_config :=
                     (handler_config this)
                       \<lparr>oauth2AccessToken := access_token tokens,
                        oauth2RefreshToken :=
                          (if truthy_str (refresh_token tokens)
                           then refresh_token tokens else Some refreshToken)\<rparr>,
                   tokenExpiresAt := Some None\<rparr>,
              tr @ [Call_fetch_token clientId clientSecret refreshToken response])"
        unfolding a .
    qed
    show ?case
      by (intro conjI rejected not_ok no_json granted no_date one)
  qed
  show ?thesis
    by (intro conjI shouldRefreshToken_iff not_due no_client attempt)
qed


theorem token_refresh_witness:
  "shouldRefreshToken refusing_env (new_OAuth2Handler refusing_env oauth2_config)
   \<and> getClient refusing_env (new_OAuth2Handler refusing_env oauth2_config) [] =
       (Inl ''Failed to refresh OAuth 2.0 token: Token refresh failed: invalid_request'',
        new_OAuth2Handler refusing_env oauth2_config,
        [Call_fetch_token ''client-id'' ''client-secret'' ''refresh-token-1''
           (Token_response False ''invalid_request'' (Inl []))])
   \<and> getClient refusing_env
         (new_OAuth2Handler refusing_env (oauth2_config\<lparr>oauth2ClientSecret := None\<rparr>)) [] =
       (Inl ''Client ID and secret required for token refresh'',
        new_OAuth2Handler refusing_env (oauth2_config\<lparr>oauth2ClientSecret := None\<rparr>), [])
   \<and> \<not> shouldRefreshToken (refusing_env\<lparr>now_at_check := 1711800000000 - 600000\<rparr>)
         (new_OAuth2Handler refusing_env oauth2_config)
   \<and> snd (snd (getClient (refusing_env\<lparr>now_at_check := 1711800000000 - 600000\<rparr>)
         (new_OAuth2Handler refusing_env oauth2_config) [])) = []
   \<and> shouldRefreshToken granting_env (new_OAuth2Handler granting_env oauth2_config)
   \<and> getClient granting_env (new_OAuth2Handler granting_env oauth2_config) [] =
       (Inr (Session (BearerClient ''oauth2-token-456'')),
        \<lparr>handler_config =
           oauth2_config
             \<lparr>oauth2AccessToken := Some ''oauth2-token-456'',
              oauth2RefreshToken := Some ''refresh-token-2'',
              oauth2TokenExpiresAt := Some ''2024-03-30T13:59:00.000Z''\<rparr>,
         handler_client = Some (Session (BearerClient ''oauth2-token-456'')),
         tokenExpiresAt = Some (Some 1711807140000)\<rparr>,
        [Call_fetch_token ''client-id'' ''client-secret'' ''refresh-token-1''
           (Token_response True [] (Inr granted_tokens)),
         Update_env_file granted_tokens])
   \<and> \<not> shouldRefreshToken granting_env
         \<lparr>handler_config =
            oauth2_config
              \<lparr>oauth2AccessToken := Some ''oauth2-token-456'',
               oauth2RefreshToken := Some ''refresh-token-2'',
               oauth2TokenExpiresAt := Some ''2024-03-30T13:59:00.000Z''\<rparr>,
          handler_client = Some (Session (BearerClient ''oauth2-token-456'')),
          tokenExpiresAt = Some (Some 1711807140000)\<rparr>
   \<and> getClient
         (granting_env\<lparr>fetch_token := \<lambda>tr clientId clientSecret refreshToken.
            Token_response True [] (Inr (granted_tokens\<lparr>expires_in := None\<rparr>))\<rparr>)
         (new_OAuth2Handler granting_env oauth2_config) [] =
       (Inl ''Failed to refresh OAuth 2.0 token: Invalid time value'',
        \<lparr>handler_config =
           oauth2_config
             \<lparr>oauth2AccessToken := Some ''oauth2-token-456'',
              oauth2RefreshToken := Some ''refresh-token-2''\<rparr>,
         handler_client = None,
         tokenExpiresAt = Some None\<rparr>,
        [Call_fetch_token ''client-id'' ''client-secret'' ''refresh-token-1''
           (Token_response True [] (Inr (granted_tokens\<lparr>expires_in := None\<rparr>)))])
   \<and> getClient
         (refusing_env\<lparr>fetch_token := \<lambda>tr clientId clientSecret refreshToken.
            Token_rejected ''fetch failed''\<rparr>)
         (new_OAuth2Handler refusing_env oauth2_config) [] =
       (Inl ''Failed to refresh OAuth 2.0 token: fetch failed'',
        new_OAuth2Handler refusing_env oauth2_config,
        [Call_fetch_token ''client-id'' ''client-secret'' ''refresh-token-1''
           (Token_rejected ''fetch failed'')])"
proof -
  let ?undated = "granting_env\<lparr>fetch_token := \<lambda>tr clientId clientSecret refreshToken.
            Token_response True [] (Inr (granted_tokens\<lparr>expires_in := None\<rparr>))\<rparr>"
  let ?no_life = "Token_response True [] (Inr (granted_tokens\<lparr>expires_in := None\<rparr>))"
  let ?offline = "refusing_env\<lparr>fetch_token := \<lambda>tr clientId clientSecret refreshToken.
            Token_rejected ''fetch failed''\<rparr>"
  let ?h = "new_OAuth2Handler refusing_env oauth2_config"
  let ?h' = "new_OAuth2Handler refusing_env (oauth2_config\<lparr>oauth2ClientSecret := None\<rparr>)"
  let ?early = "refusing_env\<lparr>now_at_check := 1711800000000 - 600000\<rparr>"
  let ?answer = "Token_response False ''invalid_request'' (Inl [])"
  let ?g = "new_OAuth2Handler granting_env oauth2_config"
  let ?renewed = "\<lparr>handler_config =
            oauth2_config
              \<lparr>oauth2AccessToken := Some ''oauth2-token-456'',
               oauth2RefreshToken := Some ''refresh-token-2'',
               oauth2TokenExpiresAt := Some ''2024-03-30T13:59:00.000Z''\<rparr>,
          handler_client = Some (Session (BearerClient ''oauth2-token-456'')),
          tokenExpiresAt = Some (Some 1711807140000)\<rparr>"
  let ?granted = "Token_response True [] (Inr granted_tokens)"
  have due: "truthy_str (oauth2RefreshToken (handler_config ?h))
      \<and> (\<exists>t. tokenExpiresAt ?h = Some (Some t) \<and> t - now_at_check refusing_env < 5 * 60 * 1000)"
    by (simp add: new_OAuth2Handler_def oauth2_config_def refusing_env_def)
  have due': "truthy_str (oauth2RefreshToken (handler_config ?h'))
      \<and> (\<exists>t. tokenExpiresAt ?h' = Some (Some t) \<and> t - now_at_check refusing_env < 5 * 60 * 1000)"
    by (simp add: new_OAuth2Handler_def oauth2_config_def refusing_env_def)
  have not_due: "\<not> (truthy_str (oauth2RefreshToken (handler_config ?h))
      \<and> (\<exists>t. tokenExpiresAt ?h = Some (Some t) \<and> t - now_at_check ?early < 5 * 60 * 1000))"
    by (simp add: new_OAuth2Handler_def oauth2_config_def refusing_env_def)
  have creds: "oauth2ClientId (handler_config ?h) = Some ''client-id''" "''client-id'' \<noteq> []"
    "oauth2ClientSecret (handler_config ?h) = Some ''client-secret''" "''client-secret'' \<noteq> []"
    "oauth2RefreshToken (handler_config ?h) = Some ''refresh-token-1''"
    by (simp_all add: new_OAuth2Handler_def oauth2_config_def)
  have no_secret: "\<not> truthy_str (oauth2ClientSecret (handler_config ?h'))"
    by (simp add: new_OAuth2Handler_def oauth2_config_def)
  have answer: "?answer = fetch_token refusing_env [] ''client-id'' ''client-secret'' ''refresh-token-1''"
    by (simp add: refusing_env_def)
  note T = token_refresh [of refusing_env ?h "[]"]
  note T' = token_refresh [of refusing_env ?h' "[]"]
  note T'' = token_refresh [of ?early ?h "[]"]
  note G = token_refresh [of granting_env ?g "[]"]
  note G' = token_refresh [of granting_env ?renewed "[]"]
  have A: "shouldRefreshToken refusing_env ?h"
    using T [THEN conjunct1] due by (rule iffD2)
  have A': "shouldRefreshToken refusing_env ?h'"
    using T' [THEN conjunct1] due' by (rule iffD2)
  have "shouldRefreshToken refusing_env ?h
        \<and> oauth2ClientId (handler_config ?h) = Some ''client-id'' \<and> ''client-id'' \<noteq> []
        \<and> oauth2ClientSecret (handler_config ?h) = Some ''client-secret'' \<and> ''client-secret'' \<noteq> []
        \<and> oauth2RefreshToken (handler_config ?h) = Some ''refresh-token-1''
        \<and> ?answer = fetch_token refusing_env [] ''client-id'' ''client-secret'' ''refresh-token-1''"
    by (intro conjI A creds answer)
  note T [THEN conjunct2, THEN conjunct2, THEN conjunct2, THEN spec, THEN spec, THEN spec,
      THEN spec, THEN mp, OF this]
  from this [THEN conjunct2, THEN conjunct1, THEN spec, THEN spec, THEN mp, OF refl]
  have B: "getClient refusing_env ?h [] =
       (Inl (''Failed to refresh OAuth 2.0 token: Token refresh failed: '' @ ''invalid_request''), ?h,
        [] @ [Call_fetch_token ''client-id'' ''client-secret'' ''refresh-token-1'' ?answer])" .
  have "shouldRefreshToken refusing_env ?h'
        \<and> (\<not> truthy_str (oauth2ClientId (handler_config ?h'))
           \<or> \<not> truthy_str (oauth2ClientSecret (handler_config ?h')))"
    by (intro conjI disjI2 A' no_secret)
  from T' [THEN conjunct2, THEN conjunct2, THEN conjunct1, THEN mp, OF this]
  have C: "getClient refusing_env ?h' [] =
       (Inl ''Client ID and secret required for token refresh'', ?h', [])" .
  have D: "\<not> shouldRefreshToken ?early ?h"
    using T'' [THEN conjunct1] not_due by blast
  from T'' [THEN conjunct2, THEN conjunct1, THEN mp, OF D]
  have E: "snd (snd (getClient ?early ?h [])) = []"
    by (rule conjunct1)
  have g_due: "truthy_str (oauth2RefreshToken (handler_config ?g))
      \<and> (\<exists>t. tokenExpiresAt ?g = Some (Some t) \<and> t - now_at_check granting_env < 5 * 60 * 1000)"
    by (simp add: new_OAuth2Handler_def oauth2_config_def granting_env_def)
  have g_creds: "oauth2ClientId (handler_config ?g) = Some ''client-id''" "''client-id'' \<noteq> []"
    "oauth2ClientSecret (handler_config ?g) = Some ''client-secret''" "''client-secret'' \<noteq> []"
    "oauth2RefreshToken (handler_config ?g) = Some ''refresh-token-1''"
    by (simp_all add: new_OAuth2Handler_def oauth2_config_def)
  have g_answer: "?granted =
      fetch_token granting_env [] ''client-id'' ''client-secret'' ''refresh-token-1''"
    by (simp add: granting_env_def)
  have g_life: "?granted = Token_response True [] (Inr granted_tokens)
      \<and> expires_in granted_tokens = Some 7200
      \<and> \<bar>now_at_refresh granting_env + 7200 * 1000\<bar> \<le> 8640000000000000"
    by (simp add: granted_tokens_def granting_env_def)
  have g_not_due: "\<not> (truthy_str (oauth2RefreshToken (handler_config ?renewed))
      \<and> (\<exists>t. tokenExpiresAt ?renewed = Some (Some t)
             \<and> t - now_at_check granting_env < 5 * 60 * 1000))"
    by (simp add: granting_env_def)
  have F: "shouldRefreshToken granting_env ?g"
    using G [THEN conjunct1] g_due by (rule iffD2)
  have "shouldRefreshToken granting_env ?g
        \<and> oauth2ClientId (handler_config ?g) = Some ''client-id'' \<and> ''client-id'' \<noteq> []
        \<and> oauth2ClientSecret (handler_config ?g) = Some ''client-secret'' \<and> ''client-secret'' \<noteq> []
        \<and> oauth2RefreshToken (handler_config ?g) = Some ''refresh-token-1''
        \<and> ?granted = fetch_token granting_env [] ''client-id'' ''client-secret'' ''refresh-token-1''"
    by (intro conjI F g_creds g_answer)
  note G [THEN conjunct2, THEN conjunct2, THEN conjunct2, THEN spec, THEN spec, THEN spec,
      THEN spec, THEN mp, OF this]
  from this [THEN conjunct2, THEN conjunct2, THEN conjunct2, THEN conjunct1,
      THEN spec, THEN spec, THEN spec, THEN mp, OF g_life]
  have H: "getClient granting_env ?g [] =
       (Inr (Session (BearerClient ''oauth2-token-456'')), ?renewed,
        [Call_fetch_token ''client-id'' ''client-secret'' ''refresh-token-1'' ?granted,
         Update_env_file granted_tokens])"
    by (simp add: new_TwitterApi_def granted_tokens_def granting_env_def new_OAuth2Handler_def)
  have I: "\<not> shouldRefreshToken granting_env ?renewed"
    using G' [THEN conjunct1] g_not_due by blast
  note U = token_refresh [of ?undated ?g "[]"]
  have u_due: "truthy_str (oauth2RefreshToken (handler_config ?g))
      \<and> (\<exists>t. tokenExpiresAt ?g = Some (Some t) \<and> t - now_at_check ?undated < 5 * 60 * 1000)"
    by (simp add: new_OAuth2Handler_def oauth2_config_def granting_env_def)
  have J: "shouldRefreshToken ?undated ?g"
    using U [THEN conjunct1] u_due by (rule iffD2)
  have u_answer: "?no_life =
      fetch_token ?undated [] ''client-id'' ''client-secret'' ''refresh-token-1''"
    by simp
  have u_life: "?no_life = Token_response True [] (Inr (granted_tokens\<lparr>expires_in := None\<rparr>))
      \<and> (expires_in (granted_tokens\<lparr>expires_in := None\<rparr>) = None
         \<or> (\<exists>secs. expires_in (granted_tokens\<lparr>expires_in := None\<rparr>) = Some secs
                \<and> 8640000000000000 < \<bar>now_at_refresh ?undated + secs * 1000\<bar>))"
    by simp
  have "shouldRefreshToken ?undated ?g
        \<and> oauth2ClientId (handler_config ?g) = Some ''client-id'' \<and> ''client-id'' \<noteq> []
        \<and> oauth2ClientSecret (handler_config ?g) = Some ''client-secret'' \<and> ''client-secret'' \<noteq> []
        \<and> oauth2RefreshToken (handler_config ?g) = Some ''refresh-token-1''
        \<and> ?no_life = fetch_token ?undated [] ''client-id'' ''client-secret'' ''refresh-token-1''"
    by (intro conjI J g_creds u_answer)
  note U [THEN conjunct2, THEN conjunct2, THEN conjunct2, THEN spec, THEN spec, THEN spec,
      THEN spec, THEN mp, OF this]
  from this [THEN conjunct2, THEN conjunct2, THEN conjunct2, THEN conjunct2, THEN conjunct1,
      THEN spec, THEN spec, THEN mp, OF u_life]
  have K: "getClient ?undated ?g [] =
       (Inl ''Failed to refresh OAuth 2.0 token: Invalid time value'',
        \<lparr>handler_config =
           oauth2_config
             \<lparr>oauth2AccessToken := Some ''oauth2-token-456'',
              oauth2RefreshToken := Some ''refresh-token-2''\<rparr>,
         handler_client = None,
         tokenExpiresAt = Some None\<rparr>,
        [Call_fetch_token ''client-id'' ''client-secret'' ''refresh-token-1'' ?no_life])"
    by (simp add: granted_tokens_def new_OAuth2Handler_def)
  note V = token_refresh [of ?offline ?h "[]"]
  have v_due: "truthy_str (oauth2RefreshToken (handler_config ?h))
      \<and> (\<exists>t. tokenExpiresAt ?h = Some (Some t) \<and> t - now_at_check ?offline < 5 * 60 * 1000)"
    by (simp add: new_OAuth2Handler_def oauth2_config_def refusing_env_def)
  have L: "shouldRefreshToken ?offline ?h"
    using V [THEN conjunct1] v_due by (rule iffD2)
  have v_answer: "Token_rejected ''fetch failed'' =
      fetch_token ?offline [] ''client-id'' ''client-secret'' ''refresh-token-1''"
    by simp
  have "shouldRefreshToken ?offline ?h
        \<and> oauth2ClientId (handler_config ?h) = Some ''client-id'' \<and> ''client-id'' \<noteq> []
        \<and> oauth2ClientSecret (handler_config ?h) = Some ''client-secret'' \<and> ''client-secret'' \<noteq> []
        \<and> oauth2RefreshToken (handler_config ?h) = Some ''refresh-token-1''
        \<and> Token_rejected ''fetch failed'' =
            fetch_token ?offline [] ''client-id'' ''client-secret'' ''refresh-token-1''"
    by (intro conjI L creds v_answer)
  note V [THEN conjunct2, THEN conjunct2, THEN conjunct2, THEN spec, THEN spec, THEN spec,
      THEN spec, THEN mp, OF this]
  from this [THEN conjunct1, THEN spec, THEN mp, OF refl]
  have M: "getClient ?offline ?h [] =
       (Inl (''Failed to refresh OAuth 2.0 token: '' @ ''fetch failed''), ?h,
        [] @ [Call_fetch_token ''client-id'' ''client-secret'' ''refresh-token-1''
                (Token_rejected ''fetch failed'')])" .
  from A B C D E F H I K M show ?thesis by simp
qed

section \<open>Properties of the media path\<close>





lemma loop_append:
  "postTweetWithMedia_loop env (xs @ ys) acc this tr =
     (case postTweetWithMedia_loop env xs acc this tr of
        (Inl e, s) \<Rightarrow> (Inl e, s)
      | (Inr ids, this', tr') \<Rightarrow> postTweetWithMedia_loop env ys ids this' tr')"
  by (induction xs arbitrary: acc this tr) (auto simp: Let_def split: prod.splits sum.splits)

lemma file_too_large_messages:
  "\<forall>k \<in> set [5..15].
     \<not> str_includes (''Media file too large. Maximum size is 5MB. Your file is '' @ show_int k @ ''MB.'') ''scope''
     \<and> \<not> str_includes (''Media file too large. Maximum size is 5MB. Your file is '' @ show_int k @ ''MB.'') ''403''"
  by code_simp

lemma limit_in_MB: "show_int (round_div (int MAX_MEDIA_FILE_SIZE) (1024 * 1024)) = ''5''"
  "show_int (round_div (int MAX_BASE64_SIZE) (1024 * 1024)) = ''15''"
proof -
  have "round_div (int MAX_MEDIA_FILE_SIZE) (1024 * 1024) = 5"
    "round_div (int MAX_BASE64_SIZE) (1024 * 1024) = 15"
    by (simp_all add: round_div_def MAX_MEDIA_FILE_SIZE_def MAX_BASE64_SIZE_def)
  moreover have "show_int 5 = ''5''" "show_int 15 = ''15''"
    by code_simp+
  ultimately show "show_int (round_div (int MAX_MEDIA_FILE_SIZE) (1024 * 1024)) = ''5''"
  "show_int (round_div (int MAX_BASE64_SIZE) (1024 * 1024)) = ''15''"
    by simp_all
qed

lemma round_div_MB:
  assumes "MAX_MEDIA_FILE_SIZE < n" "n \<le> MAX_BASE64_SIZE"
  shows "round_div (int n) (1024 * 1024) \<in> set [5..15]"
proof -
  have n: "5242880 < int n" "int n \<le> 15728640"
    using assms by (simp_all add: MAX_MEDIA_FILE_SIZE_def MAX_BASE64_SIZE_def)
  have "(10485760::int) div 2097152 \<le> (2 * int n + 1048576) div 2097152"
    using n by (intro zdiv_mono1) simp_all
  moreover have "(2 * int n + 1048576) div 2097152 \<le> (32505856::int) div 2097152"
    using n by (intro zdiv_mono1) simp_all
  ultimately have "5 \<le> (2 * int n + 1048576) div 2097152
      \<and> (2 * int n + 1048576) div 2097152 \<le> 15"
    by simp
  then have "5 \<le> round_div (int n) (1024 * 1024) \<and> round_div (int n) (1024 * 1024) \<le> 15"
    by (simp add: round_div_def)
  then show ?thesis
    unfolding set_upto atLeastAtMost_iff .
qed

lemma file_too_large_message:
  "message (file_too_large n) =
     ''Media file too large. Maximum size is 5MB. Your file is ''
       @ show_int (round_div (int n) (1024 * 1024)) @ ''MB.''"
  unfolding file_too_large_def limit_in_MB by simp

lemma file_too_large_kept:
  assumes "MAX_MEDIA_FILE_SIZE < n" "n \<le> MAX_BASE64_SIZE"
  shows "uploadMedia_catch (Tagged (file_too_large n)) = Tagged (file_too_large n)"
proof -
  from file_too_large_messages round_div_MB [OF assms]
  have "\<not> str_includes (message (file_too_large n)) ''scope''
      \<and> \<not> str_includes (message (file_too_large n)) ''403''"
    unfolding file_too_large_message by blast
  then show ?thesis
    by (simp add: uploadMedia_catch_def)
qed

lemma reached_item:
  assumes quota: "await_checkRateLimit env ''tweets/create'' this tr = (Inr (), this1, tr1)"
    and earlier: "postTweetWithMedia_loop env earlier [] this1 tr1 = (Inr ids, this2, tr2)"
    and stops: "postTweetWithMedia_loop env (item # later) ids this2 tr2 = (Inl e, s)"
  shows "postTweetWithMedia env content replyTo (Some (earlier @ item # later)) this tr
           = (Inl (handleApiError e), s)"
proof -
  have "postTweetWithMedia_loop env (earlier @ item # later) [] this1 tr1 = (Inl e, s)"
    using earlier stops by (simp add: loop_append)
  then show ?thesis
    using quota
    by (cases s) (simp add: postTweetWithMedia_def postTweetWithMedia_try_def catch_handleApiError_def)
qed

lemma sextet_A: "sextet CHR ''A'' = Some 0"
  by (simp add: sextet_def b64_alphabet_def)

lemma sextet_bang: "sextet CHR ''!'' = None"
  by (simp add: sextet_def b64_alphabet_def)

lemma replicate_4: "replicate (4 + n) x = x # x # x # x # replicate n x"
  and replicate_3: "replicate (3 + n) x = x # x # x # replicate n x"
  by (simp_all add: eval_nat_numeral)

lemma decode_zero_sextets: "decode_sextets (replicate (4 * k) 0) = replicate (3 * k) 0"
  by (induction k) (simp_all add: replicate_4 replicate_3)

lemma b64_decode_As: "b64_decode (replicate (4 * k) CHR ''A'') = replicate (3 * k) 0"
  using decode_zero_sextets [of k]
  by (simp add: b64_decode_def List.map_filter_def sextet_A)

lemma b64_encode_zeros: "b64_encode (replicate (3 * k) 0) = replicate (4 * k) CHR ''A''"
  by (induction k) (simp_all add: b64_alphabet_def replicate_4 replicate_3)

lemma b64_decode_bangs: "b64_decode (replicate n CHR ''!'') = []"
  by (simp add: b64_decode_def List.map_filter_def sextet_bang)

lemma codec_demo_env: "base64_decode demo_env = b64_decode" "base64_encode demo_env = b64_encode"
  by (simp_all add: demo_env_def)

lemma six_MiB_facts:
  "length (data six_MiB_item) = 8 * 1024 * 1024"
  "base64_encode demo_env (base64_decode demo_env (data six_MiB_item)) = data six_MiB_item"
  "length (base64_decode demo_env (data six_MiB_item)) = 6 * 1024 * 1024"
proof -
  have d: "data six_MiB_item = replicate (4 * 2097152) CHR ''A''"
    by (simp only: six_MiB_item_def MediaItem.select_convs)
  show "length (data six_MiB_item) = 8 * 1024 * 1024"
    unfolding d length_replicate by simp
  show "base64_encode demo_env (base64_decode demo_env (data six_MiB_item)) = data six_MiB_item"
    unfolding d codec_demo_env b64_decode_As b64_encode_zeros ..
  show "length (base64_decode demo_env (data six_MiB_item)) = 6 * 1024 * 1024"
    unfolding d codec_demo_env b64_decode_As length_replicate by simp
qed

lemma oversize_facts: "length (data oversize_item) = 16 * 1024 * 1024"
proof -
  have d: "data oversize_item = replicate (4 * 4194304) CHR ''A''"
    by (simp only: oversize_item_def MediaItem.select_convs)
  show ?thesis
    unfolding d length_replicate by simp
qed

lemma corrupt_oversize_facts:
  "length (data corrupt_oversize_item) = MAX_BASE64_SIZE + 1"
  "base64_encode demo_env (base64_decode demo_env (data corrupt_oversize_item))
     \<noteq> data corrupt_oversize_item"
proof -
  have d: "data corrupt_oversize_item = replicate (MAX_BASE64_SIZE + 1) CHR ''!''"
    by (simp only: corrupt_oversize_item_def MediaItem.select_convs)
  show "length (data corrupt_oversize_item) = MAX_BASE64_SIZE + 1"
    unfolding d by (rule length_replicate)
  have "b64_encode (b64_decode (replicate (MAX_BASE64_SIZE + 1) CHR ''!'')) = []"
    unfolding b64_decode_bangs by simp
  moreover have "replicate (MAX_BASE64_SIZE + 1) CHR ''!'' \<noteq> []"
    by simp
  ultimately show "base64_encode demo_env (base64_decode demo_env (data corrupt_oversize_item))
     \<noteq> data corrupt_oversize_item"
    unfolding d codec_demo_env by simp
qed

lemma small_item_facts:
  "b64_decode (data image1_item) = [105, 109, 97, 103, 101, 49]"
  "b64_encode [105, 109, 97, 103, 101, 49] = data image1_item"
  "b64_decode (data image2_item) = [105, 109, 97, 103, 101, 50]"
  "b64_encode [105, 109, 97, 103, 101, 50] = data image2_item"
  "b64_encode (b64_decode (data invalid_item)) \<noteq> data invalid_item"
  "length (data image1_item) = 8" "length (data image2_item) = 8"
  "length (data invalid_item) = 22"
  by (simp_all add: image1_item_def image2_item_def invalid_item_def
      b64_decode_def sextet_def b64_alphabet_def List.map_filter_simps Let_def)

lemmas codec_defs = b64_decode_def sextet_def b64_alphabet_def List.map_filter_simps

lemmas post_defs =
  postTweetWithMedia_def postTweetWithMedia_try_def catch_handleApiError_def

lemmas demo_defs =
  demo_env_def fresh_client_def oauth1_config_def utc_host_def instant_def

lemma create_quota_fresh:
  "\<exists>this1. await_checkRateLimit demo_env ''tweets/create'' fresh_client []
      = (Inr (), this1, [CheckRateLimit ''tweets/create''])"
  by (simp add: run_defs demo_defs)

text \<open>
  C4, as the code has it. Let the quota check of \<open>postTweetWithMedia\<close> pass and the items
  before \<open>item\<close> be uploaded, and let re-encoding the decoded bytes of \<open>item\<close> not reproduce
  its payload. If the payload is at most 15 MiB long, the call fails with the error with
  code \<open>invalid_base64\<close>, whatever the size of the decoded bytes, and the trace gains the
  decoding only. If the payload is longer than 15 MiB, the call fails with the error with
  code \<open>base64_too_large\<close> and the payload is not decoded.
\<close>

theorem invalid_encoding:
  assumes quota: "await_checkRateLimit env ''tweets/create'' this tr = (Inr (), this1, tr1)"
    and earlier: "postTweetWithMedia_loop env earlier [] this1 tr1 = (Inr ids, this2, tr2)"
    and corrupt: "base64_encode env (base64_decode env (data item)) \<noteq> data item"
  shows "(length (data item) \<le> MAX_BASE64_SIZE \<longrightarrow>
            postTweetWithMedia env content replyTo (Some (earlier @ item # later)) this tr
              = (Inl (Tagged invalid_base64), this2, tr2 @ [Buffer_from (data item)]))
       \<and> (length (data item) > MAX_BASE64_SIZE \<longrightarrow>
            postTweetWithMedia env content replyTo (Some (earlier @ item # later)) this tr
              = (Inl (Tagged base64_too_large), this2, tr2))
       \<and> code invalid_base64 = Str ''invalid_base64''
       \<and> status invalid_base64 = Num 400
       \<and> message invalid_base64 =
            ''Invalid base64 media data. Please ensure your media is properly base64 encoded.''"
proof -
  have small: "postTweetWithMedia env content replyTo (Some (earlier @ item # later)) this tr
              = (Inl (Tagged invalid_base64), this2, tr2 @ [Buffer_from (data item)])"
    if "length (data item) \<le> MAX_BASE64_SIZE"
  proof -
    have "postTweetWithMedia_loop env (item # later) ids this2 tr2
        = (Inl (Tagged invalid_base64), this2, tr2 @ [Buffer_from (data item)])"
      using that corrupt by (simp add: Let_def)
    from reached_item [OF quota earlier this] show ?thesis by simp
  qed
  have large: "postTweetWithMedia env content replyTo (Some (earlier @ item # later)) this tr
              = (Inl (Tagged base64_too_large), this2, tr2)"
    if "length (data item) > MAX_BASE64_SIZE"
  proof -
    have "postTweetWithMedia_loop env (item # later) ids this2 tr2
        = (Inl (Tagged base64_too_large), this2, tr2)"
      using that by simp
    from reached_item [OF quota earlier this] show ?thesis by simp
  qed
  show ?thesis
    using small large by (simp add: invalid_base64_def)
qed

theorem invalid_encoding_witness:
  "fst (postTweetWithMedia demo_env ''Tweet with invalid media'' None (Some [invalid_item])
          fresh_client []) = Inl (Tagged invalid_base64)
   \<and> snd (snd (postTweetWithMedia demo_env ''Tweet with invalid media'' None (Some [invalid_item])
          fresh_client [])) = [CheckRateLimit ''tweets/create'', Buffer_from (data invalid_item)]
   \<and> fst (postTweetWithMedia demo_env ''Tweet with invalid media'' None
          (Some [corrupt_oversize_item]) fresh_client []) = Inl (Tagged base64_too_large)"
proof -
  from create_quota_fresh obtain this1 where
    quota: "await_checkRateLimit demo_env ''tweets/create'' fresh_client []
      = (Inr (), this1, [CheckRateLimit ''tweets/create''])"
    by blast
  have earlier: "postTweetWithMedia_loop demo_env [] [] this1 [CheckRateLimit ''tweets/create'']
      = (Inr [], this1, [CheckRateLimit ''tweets/create''])"
    by simp
  have corrupt: "base64_encode demo_env (base64_decode demo_env (data invalid_item)) \<noteq> data invalid_item"
    using small_item_facts(5) by (simp add: codec_demo_env)
  have small: "length (data invalid_item) \<le> MAX_BASE64_SIZE"
    by (simp add: small_item_facts MAX_BASE64_SIZE_def)
  have large: "length (data corrupt_oversize_item) > MAX_BASE64_SIZE"
    by (simp add: corrupt_oversize_facts)
  from invalid_encoding [OF quota earlier corrupt, of "''Tweet with invalid media''" None "[]"] small
  have A: "postTweetWithMedia demo_env ''Tweet with invalid media'' None (Some [invalid_item])
          fresh_client []
      = (Inl (Tagged invalid_base64), this1,
         [CheckRateLimit ''tweets/create''] @ [Buffer_from (data invalid_item)])"
    by simp
  from invalid_encoding [OF quota earlier corrupt_oversize_facts(2),
      of "''Tweet with invalid media''" None "[]"] large
  have B: "postTweetWithMedia demo_env ''Tweet with invalid media'' None
          (Some [corrupt_oversize_item]) fresh_client []
      = (Inl (Tagged base64_too_large), this1, [CheckRateLimit ''tweets/create''])"
    by simp
  from A B show ?thesis by simp
qed

text \<open>
  A corrupt payload of 15 MiB and one character is rejected as too large, not as invalid.
\<close>

theorem invalid_encoding_counterexample:
  "base64_encode demo_env (base64_decode demo_env (data corrupt_oversize_item))
     \<noteq> data corrupt_oversize_item
   \<and> fst (postTweetWithMedia demo_env ''Tweet with invalid media'' None
          (Some [corrupt_oversize_item]) fresh_client []) = Inl (Tagged base64_too_large)
   \<and> Tagged base64_too_large \<noteq> Tagged invalid_base64"
proof -
  from create_quota_fresh obtain this1 where
    quota: "await_checkRateLimit demo_env ''tweets/create'' fresh_client []
      = (Inr (), this1, [CheckRateLimit ''tweets/create''])"
    by blast
  have earlier: "postTweetWithMedia_loop demo_env [] [] this1 [CheckRateLimit ''tweets/create'']
      = (Inr [], this1, [CheckRateLimit ''tweets/create''])"
    by simp
  have "postTweetWithMedia_loop demo_env [corrupt_oversize_item] [] this1
          [CheckRateLimit ''tweets/create'']
      = (Inl (Tagged base64_too_large), this1, [CheckRateLimit ''tweets/create''])"
    by (simp add: corrupt_oversize_facts)
  from reached_item [OF quota earlier this, of "''Tweet with invalid media''" None]
  have "fst (postTweetWithMedia demo_env ''Tweet with invalid media'' None
          (Some [corrupt_oversize_item]) fresh_client []) = Inl (Tagged base64_too_large)"
    by simp
  moreover have "Tagged base64_too_large \<noteq> Tagged invalid_base64"
    by (simp add: base64_too_large_def invalid_base64_def)
  ultimately show ?thesis
    using corrupt_oversize_facts(2) by simp
qed

text \<open>
  C5. Let the quota check of \<open>postTweetWithMedia\<close> pass and the items before \<open>item\<close> be
  uploaded. If the payload of \<open>item\<close> is longer than 15 MiB, the call fails with the error
  with code \<open>base64_too_large\<close> and the trace gains nothing: the payload is not decoded.
  If the payload is at most 15 MiB long and decodes, without loss, to more than 5 MiB, the
  call fails with the error with code \<open>file_too_large\<close>, whose message restates the limit
  of 5MB, and the trace gains the decoding only: neither the governor is asked about
  \<open>media/upload\<close> nor is an upload call made. The runtime's decoder yields no more bytes than
  the payload has characters; this keeps the size named in the message below 403, a number
  that the \<open>catch\<close> clause of \<open>uploadMedia\<close> would take for a status. The two errors differ.
\<close>

theorem media_size_checks:
  assumes quota: "await_checkRateLimit env ''tweets/create'' this tr = (Inr (), this1, tr1)"
    and earlier: "postTweetWithMedia_loop env earlier [] this1 tr1 = (Inr ids, this2, tr2)"
  shows "(length (data item) > MAX_BASE64_SIZE \<longrightarrow>
            postTweetWithMedia env content replyTo (Some (earlier @ item # later)) this tr
              = (Inl (Tagged base64_too_large), this2, tr2))
       \<and> (length (data item) \<le> MAX_BASE64_SIZE
          \<and> base64_encode env (base64_decode env (data item)) = data item
          \<and> length (base64_decode env (data item)) > MAX_MEDIA_FILE_SIZE
          \<and> length (base64_decode env (data item)) \<le> length (data item) \<longrightarrow>
            postTweetWithMedia env content replyTo (Some (earlier @ item # later)) this tr
              = (Inl (Tagged (file_too_large (length (base64_decode env (data item))))), this2,
                 tr2 @ [Buffer_from (data item)]))
       \<and> code base64_too_large = Str ''base64_too_large''
       \<and> message base64_too_large = ''Base64 media data too large. Maximum size is 15MB encoded.''
       \<and> code (file_too_large n) = Str ''file_too_large''
       \<and> message (file_too_large n) =
            ''Media file too large. Maximum size is 5MB. Your file is ''
              @ show_int (round_div (int n) (1024 * 1024)) @ ''MB.''
       \<and> base64_too_large \<noteq> file_too_large n
       \<and> MAX_BASE64_SIZE = 15 * 1024 * 1024 \<and> MAX_MEDIA_FILE_SIZE = 5 * 1024 * 1024"
proof -
  have encoded: "postTweetWithMedia env content replyTo (Some (earlier @ item # later)) this tr
              = (Inl (Tagged base64_too_large), this2, tr2)"
    if "length (data item) > MAX_BASE64_SIZE"
  proof -
    have "postTweetWithMedia_loop env (item # later) ids this2 tr2
        = (Inl (Tagged base64_too_large), this2, tr2)"
      using that by simp
    from reached_item [OF quota earlier this] show ?thesis by simp
  qed
  have decoded: "postTweetWithMedia env content replyTo (Some (earlier @ item # later)) this tr
              = (Inl (Tagged (file_too_large (length (base64_decode env (data item))))), this2,
                 tr2 @ [Buffer_from (data item)])"
    if fits: "length (data item) \<le> MAX_BASE64_SIZE"
      and valid: "base64_encode env (base64_decode env (data item)) = data item"
      and big: "length (base64_decode env (data item)) > MAX_MEDIA_FILE_SIZE"
      and runtime: "length (base64_decode env (data item)) \<le> length (data item)"
  proof -
    let ?buffer = "base64_decode env (data item)"
    have kept: "uploadMedia_catch (Tagged (file_too_large (length ?buffer)))
        = Tagged (file_too_large (length ?buffer))"
      using big runtime fits by (intro file_too_large_kept) simp_all
    have "uploadMedia env ?buffer (media_type item) this2 (tr2 @ [Buffer_from (data item)])
        = (Inl (Tagged (file_too_large (length ?buffer))), this2, tr2 @ [Buffer_from (data item)])"
      using big kept by (simp add: uploadMedia_def uploadMedia_try_def)
    then have "postTweetWithMedia_loop env (item # later) ids this2 tr2
        = (Inl (Tagged (file_too_large (length ?buffer))), this2, tr2 @ [Buffer_from (data item)])"
      using fits valid by (simp add: Let_def)
    from reached_item [OF quota earlier this] show ?thesis by simp
  qed
  have texts: "code base64_too_large = Str ''base64_too_large''"
    "message base64_too_large = ''Base64 media data too large. Maximum size is 15MB encoded.''"
    "code (file_too_large n) = Str ''file_too_large''"
    unfolding base64_too_large_def file_too_large_def limit_in_MB by simp_all
  show ?thesis
    using encoded decoded texts file_too_large_message [of n]
    by (auto simp: MAX_BASE64_SIZE_def MAX_MEDIA_FILE_SIZE_def)
qed

theorem media_size_checks_witness:
  "postTweetWithMedia demo_env ''Tweet with large media'' None (Some [oversize_item])
       fresh_client []
     = (Inl (Tagged base64_too_large),
        fst (snd (await_checkRateLimit demo_env ''tweets/create'' fresh_client [])),
        [CheckRateLimit ''tweets/create''])
   \<and> postTweetWithMedia demo_env ''Tweet with large media'' None (Some [six_MiB_item])
       fresh_client []
     = (Inl (Tagged (file_too_large (6 * 1024 * 1024))),
        fst (snd (await_checkRateLimit demo_env ''tweets/create'' fresh_client [])),
        [CheckRateLimit ''tweets/create'', Buffer_from (data six_MiB_item)])
   \<and> message (file_too_large (6 * 1024 * 1024)) =
       ''Media file too large. Maximum size is 5MB. Your file is 6MB.''"
proof -
  from create_quota_fresh obtain this1 where
    quota: "await_checkRateLimit demo_env ''tweets/create'' fresh_client []
      = (Inr (), this1, [CheckRateLimit ''tweets/create''])"
    by blast
  have earlier: "postTweetWithMedia_loop demo_env [] [] this1 [CheckRateLimit ''tweets/create'']
      = (Inr [], this1, [CheckRateLimit ''tweets/create''])"
    by simp
  note checks = media_size_checks [OF quota earlier, of _ "''Tweet with large media''" None "[]"
      "6 * 1024 * 1024"]
  have encoded: "length (data oversize_item) > MAX_BASE64_SIZE"
    by (simp add: oversize_facts MAX_BASE64_SIZE_def)
  have decoded: "length (data six_MiB_item) \<le> MAX_BASE64_SIZE
          \<and> base64_encode demo_env (base64_decode demo_env (data six_MiB_item)) = data six_MiB_item
          \<and> length (base64_decode demo_env (data six_MiB_item)) > MAX_MEDIA_FILE_SIZE
          \<and> length (base64_decode demo_env (data six_MiB_item)) \<le> length (data six_MiB_item)"
    by (simp add: six_MiB_facts MAX_BASE64_SIZE_def MAX_MEDIA_FILE_SIZE_def)
  have six: "show_int (round_div (int (6 * 1024 * 1024)) (1024 * 1024)) = ''6''"
  proof -
    have "round_div (int (6 * 1024 * 1024)) (1024 * 1024) = 6"
      by (simp add: round_div_def)
    moreover have "show_int 6 = ''6''"
      by code_simp
    ultimately show ?thesis by simp
  qed
  have A: "postTweetWithMedia demo_env ''Tweet with large media'' None (Some [oversize_item])
       fresh_client [] = (Inl (Tagged base64_too_large), this1, [CheckRateLimit ''tweets/create''])"
    using checks [of oversize_item] encoded by simp
  have B: "postTweetWithMedia demo_env ''Tweet with large media'' None (Some [six_MiB_item])
       fresh_client []
     = (Inl (Tagged (file_too_large (6 * 1024 * 1024))), this1,
        [CheckRateLimit ''tweets/create'', Buffer_from (data six_MiB_item)])"
    using checks [of six_MiB_item] decoded by (simp add: six_MiB_facts)
  have C: "message (file_too_large (6 * 1024 * 1024)) =
       ''Media file too large. Maximum size is 5MB. Your file is 6MB.''"
    using checks [of oversize_item] unfolding six by simp
  from A B C quota show ?thesis by simp
qed






text \<open>
  With a clock that advances by less than a minute between the two uploads, the governor
  refuses the second upload and the post with two media items fails.
\<close>

lemma two_uploads_within_a_minute:
  "fst (postTweetWithMedia hasty_env ''Multiple images'' None (Some [image1_item, image2_item])
          fresh_client [])
     = Inl (Tagged (rate_limit_error 60 ''media/upload''))"
proof -
  have "show_int 60 = ''60''"
    by code_simp
  then show ?thesis
    by (simp add: post_defs run_defs codec_defs image1_item_def image2_item_def hasty_env_def
        demo_defs ceil_div_def rate_limit_error_def)
qed

end
